theory Spec2Isabelle
  imports Complex_Main
begin

section \<open>The syntax tree the function node works on\<close>

text \<open>
  The class \<^verbatim>\<open>FunctionNode\<close> of \<^verbatim>\<open>src/backend/function-node.js\<close> walks the
  ESTree that the parser produces. A node is a value of the datatype \<open>ast\<close>; only
  the fields the class reads are kept. A numeric literal's value is an IEEE double:
  a finite one is the rational it denotes. String and regular-expression literals
  are left out of \<open>litval\<close> (the class only tests a literal's value as a number).
  A field that ESTree allows to be \<^verbatim>\<open>null\<close> is an \<open>option\<close>. The body of a
  function declaration or expression is always a block statement; the constructor
  holds that block's statement list. \<open>OtherNode t\<close> is a node of a type \<open>t\<close>
  that the class has no case for. The offsets \<^verbatim>\<open>start\<close> and \<^verbatim>\<open>end\<close> of a node
  are read by the error reporter only, which takes the offset as an argument.
\<close>

datatype jsnum = Finite rat | PosInfinity | NegInfinity | NaN

datatype litval = LNum jsnum | LBool bool | LNull

datatype ast =
    Identifier string
  | ThisExpression
  | Literal litval
  | MemberExpression ast ast bool
  | CallExpression ast "ast list"
  | ArrayExpression "ast option list"
  | BinaryExpression string ast ast
  | LogicalExpression string ast ast
  | AssignmentExpression string ast ast
  | UnaryExpression string bool ast
  | UpdateExpression string bool ast
  | ConditionalExpression ast ast ast
  | SequenceExpression "ast list"
  | VariableDeclaration "ast list"
  | VariableDeclarator ast "ast option"
  | ReturnStatement "ast option"
  | ExpressionStatement ast
  | BlockStatement "ast list"
  | IfStatement ast ast "ast option"
  | ForStatement "ast option" "ast option" "ast option" ast
  | WhileStatement ast ast
  | DoWhileStatement ast ast
  | BreakStatement
  | ContinueStatement
  | EmptyStatement
  | DebuggerStatement
  | FunctionDeclaration "ast option" "ast list" "ast list"
  | FunctionExpression "ast option" "ast list" "ast list"
  | OtherNode string

text \<open>The \<^verbatim>\<open>type\<close> field of a node.\<close>

fun type_of :: "ast \<Rightarrow> string" where
  "type_of (Identifier n) = ''Identifier''"
| "type_of ThisExpression = ''ThisExpression''"
| "type_of (Literal v) = ''Literal''"
| "type_of (MemberExpression obj prop computed) = ''MemberExpression''"
| "type_of (CallExpression callee args) = ''CallExpression''"
| "type_of (ArrayExpression elements) = ''ArrayExpression''"
| "type_of (BinaryExpression operator l r) = ''BinaryExpression''"
| "type_of (LogicalExpression operator l r) = ''LogicalExpression''"
| "type_of (AssignmentExpression operator l r) = ''AssignmentExpression''"
| "type_of (UnaryExpression operator prefix argument) = ''UnaryExpression''"
| "type_of (UpdateExpression operator prefix argument) = ''UpdateExpression''"
| "type_of (ConditionalExpression test consequent alternate) = ''ConditionalExpression''"
| "type_of (SequenceExpression expressions) = ''SequenceExpression''"
| "type_of (VariableDeclaration declarations) = ''VariableDeclaration''"
| "type_of (VariableDeclarator ident init) = ''VariableDeclarator''"
| "type_of (ReturnStatement argument) = ''ReturnStatement''"
| "type_of (ExpressionStatement expression) = ''ExpressionStatement''"
| "type_of (BlockStatement body) = ''BlockStatement''"
| "type_of (IfStatement test consequent alternate) = ''IfStatement''"
| "type_of (ForStatement init test update body) = ''ForStatement''"
| "type_of (WhileStatement test body) = ''WhileStatement''"
| "type_of (DoWhileStatement body test) = ''DoWhileStatement''"
| "type_of BreakStatement = ''BreakStatement''"
| "type_of ContinueStatement = ''ContinueStatement''"
| "type_of EmptyStatement = ''EmptyStatement''"
| "type_of DebuggerStatement = ''DebuggerStatement''"
| "type_of (FunctionDeclaration ident params body) = ''FunctionDeclaration''"
| "type_of (FunctionExpression ident params body) = ''FunctionExpression''"
| "type_of (OtherNode t) = t"

text \<open>
  Field reads. JavaScript reads any field of any object: a field the node does not
  have is \<^verbatim>\<open>undefined\<close>, here \<open>None\<close>.
\<close>

fun name_of :: "ast \<Rightarrow> string option" where
  "name_of (Identifier n) = Some n"
| "name_of a = None"

fun object_of :: "ast \<Rightarrow> ast option" where
  "object_of (MemberExpression obj prop computed) = Some obj"
| "object_of a = None"

fun property_of :: "ast \<Rightarrow> ast option" where
  "property_of (MemberExpression obj prop computed) = Some prop"
| "property_of a = None"

fun init_of :: "ast \<Rightarrow> ast option" where
  "init_of (VariableDeclarator ident init) = init"
| "init_of (ForStatement init test update body) = init"
| "init_of a = None"

fun id_of :: "ast \<Rightarrow> ast option" where
  "id_of (VariableDeclarator ident init) = Some ident"
| "id_of (FunctionDeclaration ident params body) = ident"
| "id_of (FunctionExpression ident params body) = ident"
| "id_of a = None"

section \<open>Errors and the function unit\<close>

text \<open>
  Every \<^verbatim>\<open>throw\<close> is a value. \<open>AstError m a\<close> is the diagnostic that
  \<^verbatim>\<open>this.astErrorOutput(m, a)\<close> builds for node \<open>a\<close>; \<open>PlainError m\<close> is
  \<^verbatim>\<open>new Error(m)\<close>; \<open>TypeError\<close> is the run-time error of JavaScript for a
  field read on \<^verbatim>\<open>null\<close> or \<^verbatim>\<open>undefined\<close>, or a call of something that is no
  function.
\<close>

datatype error = AstError string ast | PlainError string | TypeError

text \<open>
  Values the class stores and never inspects (constants, argument sizes, the debug
  flag, plugins) are \<open>jsval\<close>s.
\<close>

datatype jsval = JNull | JBool bool | JNum int | JStr string | JArr "jsval list"

text \<open>
  The first argument of the constructor: a string, an object (a syntax tree built
  by the caller), or \<^verbatim>\<open>null\<close>/\<^verbatim>\<open>undefined\<close>.
\<close>

datatype jssource = SourceString string | SourceObject | SourceMissing

text \<open>
  A dependency record, as \<^verbatim>\<open>getDependencies\<close> pushes it:
  \<^verbatim>\<open>{ origin, name?, value?, isSafe }\<close>.
\<close>

record dependency =
  dep_origin :: string
  dep_name :: "string option"
  dep_value :: "litval option"
  dep_isSafe :: bool

text \<open>
  What \<^verbatim>\<open>getDependencies\<close> returns, and so what a declaration record can hold
  as its \<^verbatim>\<open>dependencies\<close>: the array of dependency records, \<^verbatim>\<open>null\<close>, or
  (for a member expression) the \<^verbatim>\<open>type\<close> field of a descriptor, a string or
  \<^verbatim>\<open>null\<close>/\<^verbatim>\<open>undefined\<close>.
\<close>

datatype depsval = DepList "dependency list" | DepNull | DepType "string option"

text \<open>A declaration record: \<^verbatim>\<open>Object.freeze({ type, dependencies, isSafe })\<close>.\<close>

record decl_record =
  decl_type :: "string option"
  decl_dependencies :: depsval
  decl_isSafe :: bool

text \<open>
  One argument of a recorded call of this function in its parent:
  \<^verbatim>\<open>{ type, name }\<close>. \<open>called_table\<close> is a unit's
  \<^verbatim>\<open>calledFunctionsArguments\<close>: for a function name, the list of its calls, each
  a list of arguments, an argument being \<^verbatim>\<open>null\<close> when nothing is known of it.
\<close>

record called_arg =
  ca_type :: "string option"
  ca_name :: "string option"

type_synonym called_table = "(string \<times> called_arg option list list) list"

text \<open>
  The fields of a \<^verbatim>\<open>FunctionNode\<close> that the constructor sets before it copies the
  settings. Of \<^verbatim>\<open>parent\<close> the class reads \<^verbatim>\<open>parent.calledFunctionsArguments\<close> only,
  so that table stands for the parent. \<^verbatim>\<open>onNestedFunction\<close> is a callback of the
  host: the field says whether one is registered, and \<open>nestedCalls\<close> lists its
  calls so far, each as the node whose text \<^verbatim>\<open>utils.getAstString(this.source, ast)\<close>
  is the first argument, and the return type that is the second. An object is an association list or a map; names
  inherited from \<^verbatim>\<open>Object.prototype\<close> are not modelled. A type that is
  \<^verbatim>\<open>null\<close> or \<^verbatim>\<open>undefined\<close> is \<open>None\<close>.
\<close>

record function_node =
  source :: jssource
  name :: "string option"
  calledFunctions :: "string list"
  calledFunctionsArguments :: called_table
  constants :: "(string \<times> jsval) list"
  constantTypes :: "(string \<times> string) list"
  isRootKernel :: bool
  isSubKernel :: bool
  parent :: "called_table option"
  debug :: jsval
  declarations :: "string \<rightharpoonup> decl_record"
  states :: "string list"
  lookupReturnType :: "(string \<Rightarrow> string option) option"
  onNestedFunction :: bool
  nestedCalls :: "(ast \<times> string option) list"
  loopMaxIterations :: "int option"
  argumentNames :: "string list option"
  argumentTypes :: "string option list"
  argumentSizes :: "jsval list"
  returnType :: "string option"
  "output" :: "int list"
  plugins :: jsval

text \<open>How a template string prints a value that may be \<^verbatim>\<open>undefined\<close>.\<close>

definition js_string :: "string option \<Rightarrow> string" where
  "js_string v = (case v of None \<Rightarrow> ''undefined'' | Some s \<Rightarrow> s)"

text \<open>A string is truthy when it is there and not empty.\<close>

definition truthy :: "string option \<Rightarrow> bool" where
  "truthy v = (case v of None \<Rightarrow> False | Some s \<Rightarrow> s \<noteq> [])"

section \<open>The traversal-state stack\<close>

text \<open>
  \<^verbatim>\<open>pushState\<close>, \<^verbatim>\<open>get state\<close>, \<^verbatim>\<open>isState\<close> and \<^verbatim>\<open>popState\<close>. The stack is the
  array \<^verbatim>\<open>this.states\<close>; its top is its last element, \<^verbatim>\<open>undefined\<close> when the
  array is empty. A method that can throw returns the error or its result, and the
  unit as the call leaves it.
\<close>

definition pushState :: "string \<Rightarrow> function_node \<Rightarrow> function_node" where
  "pushState st fn = fn\<lparr>states := states fn @ [st]\<rparr>"

definition state :: "function_node \<Rightarrow> string option" where
  "state fn = (if states fn = [] then None else Some (last (states fn)))"

definition isState :: "string \<Rightarrow> function_node \<Rightarrow> bool" where
  "isState st fn = (state fn = Some st)"

definition popState :: "string \<Rightarrow> function_node \<Rightarrow> (error + unit) \<times> function_node" where
  "popState st fn =
     (if state fn \<noteq> Some st
      then (Inl (PlainError (''Cannot popState '' @ st @ '' when in '' @ js_string (state fn))), fn)
      else (Inr (), fn\<lparr>states := butlast (states fn)\<rparr>))"

text \<open>A unit to evaluate the methods on: the fields as the constructor initialises
  them, for the source \<^verbatim>\<open>function f(a) { ... }\<close> and the output shape \<^verbatim>\<open>[1]\<close>.\<close>

definition unit0 :: function_node where
  "unit0 = \<lparr> source = SourceString ''function f(a) {}'', name = Some ''f'',
     calledFunctions = [], calledFunctionsArguments = [], constants = [],
     constantTypes = [], isRootKernel = False, isSubKernel = False, parent = None,
     debug = JNull, declarations = Map.empty, states = [], lookupReturnType = None,
     onNestedFunction = False, nestedCalls = [], loopMaxIterations = None,
     argumentNames = Some [''a''], argumentTypes = [], argumentSizes = [],
     returnType = Some ''Number'', output = [1], plugins = JNull \<rparr>"

section \<open>The error reporter\<close>

text \<open>
  \<^verbatim>\<open>astErrorOutput(error, ast)\<close>. The text it builds is
  \<^verbatim>\<open>`${error} on line ${splitLines.length}, position ${lineBefore.length}:\n ${debugString}`\<close>;
  the diagnostic is the record of the four values the template prints. When the
  source is no string the diagnostic is the message alone. The node's
  \<^verbatim>\<open>start\<close> offset and the text \<^verbatim>\<open>utils.getAstString(this.source, ast)\<close> (a helper
  that is not part of this file) are arguments.
\<close>

record diagnostic =
  diag_error :: string
  diag_line :: "nat option"
  diag_position :: "nat option"
  diag_debugString :: "string option"

text \<open>\<^verbatim>\<open>s.split(/\n/)\<close>: the pieces between line feeds; never an empty list.\<close>

fun split_lines :: "string \<Rightarrow> string list" where
  "split_lines [] = [[]]"
| "split_lines (c # cs) =
     (if c = CHR 0x0A then [] # split_lines cs
      else (case split_lines cs of [] \<Rightarrow> [[c]] | l # ls \<Rightarrow> (c # l) # ls))"

definition astErrorOutput :: "jssource \<Rightarrow> string \<Rightarrow> nat \<Rightarrow> string \<Rightarrow> diagnostic" where
  "astErrorOutput src err start debugString =
     (case src of
        SourceString text \<Rightarrow>
          (let leadingSource = drop start text;
               splitLines = split_lines leadingSource;
               lineBefore = last splitLines
           in \<lparr> diag_error = err, diag_line = Some (length splitLines),
                diag_position = Some (length lineBefore),
                diag_debugString = Some debugString \<rparr>)
      | _ \<Rightarrow> \<lparr> diag_error = err, diag_line = None, diag_position = None,
               diag_debugString = None \<rparr>)"

text \<open>
  The line and the column as the specification words them, to compare with:
  the 1-based number of the line that holds the offset, and the length of the text
  between the last line feed before the offset and the offset.
\<close>

definition spec_line :: "string \<Rightarrow> nat \<Rightarrow> nat" where
  "spec_line text start = length (split_lines (take start text))"

definition spec_column :: "string \<Rightarrow> nat \<Rightarrow> nat" where
  "spec_column text start = length (last (split_lines (take start text)))"

section \<open>The type oracle\<close>

text \<open>\<^verbatim>\<open>typeLookupMap\<close>, the constant at the end of the file.\<close>

definition typeLookupMap :: "(string \<times> string) list" where
  "typeLookupMap =
     [(''Array'', ''Number''), (''Array(2)'', ''Number''), (''Array(3)'', ''Number''),
      (''Array(4)'', ''Number''), (''Array2D'', ''Number''), (''Array3D'', ''Number''),
      (''HTMLImage'', ''Array(4)''), (''HTMLImageArray'', ''Array(4)''),
      (''NumberTexture'', ''Number''), (''ArrayTexture(4)'', ''Array(4)'')]"

text \<open>\<^verbatim>\<open>typeLookupMap[t]\<close> for a \<open>t\<close> that may be \<^verbatim>\<open>null\<close> or \<^verbatim>\<open>undefined\<close>.\<close>

definition typeLookup :: "string option \<Rightarrow> string option" where
  "typeLookup t = (case t of None \<Rightarrow> None | Some k \<Rightarrow> map_of typeLookupMap k)"

definition mathProperties :: "string list" where
  "mathProperties = [''E'', ''PI'', ''SQRT2'', ''SQRT1_2'', ''LN2'', ''LN10'', ''LOG2E'', ''LOG10E'']"

definition mathFunctions :: "string list" where
  "mathFunctions =
     [''abs'', ''acos'', ''asin'', ''atan'', ''atan2'', ''ceil'', ''cos'', ''exp'', ''floor'',
      ''log'', ''log2'', ''max'', ''min'', ''pow'', ''random'', ''round'', ''sign'', ''sin'',
      ''sqrt'', ''tan'']"

definition isAstMathVariable :: "ast \<Rightarrow> bool" where
  "isAstMathVariable a =
     (case a of
        MemberExpression obj prop computed \<Rightarrow>
          (case obj of
             Identifier objName \<Rightarrow>
               objName = ''Math'' \<and>
               (case prop of Identifier propName \<Rightarrow> propName \<in> set mathProperties | _ \<Rightarrow> False)
           | _ \<Rightarrow> False)
      | _ \<Rightarrow> False)"

definition isAstMathFunction :: "ast \<Rightarrow> bool" where
  "isAstMathFunction a =
     (case a of
        CallExpression callee args \<Rightarrow>
          (case callee of
             MemberExpression obj prop computed \<Rightarrow>
               (case obj of
                  Identifier objName \<Rightarrow>
                    objName = ''Math'' \<and>
                    (case prop of Identifier propName \<Rightarrow> propName \<in> set mathFunctions
                     | _ \<Rightarrow> False)
                | _ \<Rightarrow> False)
           | _ \<Rightarrow> False)
      | _ \<Rightarrow> False)"

definition isAstVariable :: "ast \<Rightarrow> bool" where
  "isAstVariable a = (type_of a = ''Identifier'' \<or> type_of a = ''MemberExpression'')"

text \<open>
  \<^verbatim>\<open>getVariableSignature\<close>. The loop walks \<^verbatim>\<open>ast = ast.object\<close> until there is
  no object; only a member expression has one. \<^verbatim>\<open>push\<close> appends a fragment,
  \<^verbatim>\<open>unshift\<close> puts it in front. \<open>propertyFragment\<close> is the fragment of a
  member expression that is not computed: the branch on
  \<^verbatim>\<open>ast.property && ast.property.name\<close>, and \<^verbatim>\<open>unknown\<close> when there is no
  such name.
\<close>

definition propertyFragment :: "ast \<Rightarrow> string" where
  "propertyFragment prop =
     (if truthy (name_of prop) then
        (if name_of prop = Some ''x'' \<or> name_of prop = Some ''y'' \<or> name_of prop = Some ''z''
         then ''.value''
         else if name_of prop = Some ''constants'' \<or> name_of prop = Some ''thread''
                 \<or> name_of prop = Some ''output''
         then ''.'' @ js_string (name_of prop)
         else ''.value'')
      else ''unknown'')"

fun signatureParts :: "ast \<Rightarrow> string list \<Rightarrow> string list" where
  "signatureParts (MemberExpression obj prop computed) sig =
     signatureParts obj (if computed then sig @ [''[]''] else propertyFragment prop # sig)"
| "signatureParts ThisExpression sig = ''this'' # sig"
| "signatureParts (Identifier n) sig = (if n \<noteq> [] then ''value'' # sig else ''unknown'' # sig)"
| "signatureParts (CallExpression callee args) sig =
     (if truthy (name_of callee) then ''fn()'' # sig else ''unknown'' # sig)"
| "signatureParts a sig = ''unknown'' # sig"

definition allowedExpressions :: "string list" where
  "allowedExpressions =
     [''value'', ''value[]'', ''value[][]'', ''value[][][]'', ''value.value'',
      ''this.thread.value'', ''this.output.value'', ''this.constants.value'',
      ''this.constants.value[]'', ''this.constants.value[][]'',
      ''this.constants.value[][][]'', ''fn()[]'', ''fn()[][]'', ''fn()[][][]'']"

definition getVariableSignature :: "ast \<Rightarrow> error + string option" where
  "getVariableSignature a =
     (if \<not> isAstVariable a
      then Inl (PlainError (''ast of type \"'' @ type_of a @ ''\" is not a variable signature''))
      else if type_of a = ''Identifier'' then Inr (Some ''value'')
      else (let signatureString = concat (signatureParts a [])
            in if signatureString \<in> set allowedExpressions then Inr (Some signatureString)
               else Inr None))"

text \<open>\<^verbatim>\<open>Number.isInteger(v)\<close>.\<close>

definition is_integer :: "jsnum \<Rightarrow> bool" where
  "is_integer v = (case v of Finite q \<Rightarrow> of_int \<lfloor>q\<rfloor> = q | _ \<Rightarrow> False)"

definition isIntegerLiteral :: "litval \<Rightarrow> bool" where
  "isIntegerLiteral v = (case v of LNum n \<Rightarrow> is_integer n | _ \<Rightarrow> False)"

text \<open>A number printed in a template string, for a natural number.\<close>

fun show_nat :: "nat \<Rightarrow> string" where
  "show_nat n = (if n < 10 then [''0123456789'' ! n]
                 else show_nat (n div 10) @ [''0123456789'' ! (n mod 10)])"

declare show_nat.simps [simp del]

text \<open>\<^verbatim>\<open>xs.indexOf(x)\<close>; \<open>None\<close> is \<^verbatim>\<open>-1\<close>.\<close>

fun indexOf :: "'a \<Rightarrow> 'a list \<Rightarrow> nat option" where
  "indexOf x [] = None"
| "indexOf x (y # ys) = (if x = y then Some 0 else map_option Suc (indexOf x ys))"

text \<open>\<^verbatim>\<open>xs[xs.length - 1]\<close>, \<^verbatim>\<open>undefined\<close> for the empty array.\<close>

definition last_opt :: "'a list \<Rightarrow> 'a option" where
  "last_opt xs = (if xs = [] then None else Some (last xs))"

text \<open>\<^verbatim>\<open>xs[i] = v\<close>: an index past the end extends the array with holes.\<close>

definition js_set :: "'a option list \<Rightarrow> nat \<Rightarrow> 'a option \<Rightarrow> 'a option list" where
  "js_set xs i v =
     (if i < length xs then xs[i := v] else xs @ replicate (i - length xs) None @ [v])"

text \<open>\<^verbatim>\<open>getConstantType\<close>; an \<^verbatim>\<open>undefined\<close> name reads the key \<^verbatim>\<open>"undefined"\<close>.\<close>

definition getConstantType :: "string option \<Rightarrow> function_node \<Rightarrow> string option" where
  "getConstantType constantName fn =
     (if truthy (map_of (constantTypes fn) (js_string constantName))
      then (if map_of (constantTypes fn) (js_string constantName) = Some ''Float''
            then Some ''Number''
            else map_of (constantTypes fn) (js_string constantName))
      else None)"

text \<open>
  \<^verbatim>\<open>getVariableType\<close>. \<open>lookupCalled\<close> is its loop over the parent's recorded
  calls: the first call whose argument at the index is not \<^verbatim>\<open>null\<close> gives the
  type (\<open>Some t\<close>, with \<open>t\<close> the argument's \<^verbatim>\<open>type\<close> field), which is then
  stored in \<^verbatim>\<open>this.argumentTypes\<close>; a call with no entry at the index reads a field
  of \<^verbatim>\<open>undefined\<close>.
\<close>

fun lookupCalled :: "called_arg option list list \<Rightarrow> nat \<Rightarrow> error + string option option" where
  "lookupCalled [] argumentIndex = Inr None"
| "lookupCalled (calledFunctionArgument # rest) argumentIndex =
     (if argumentIndex < length calledFunctionArgument
      then (case calledFunctionArgument ! argumentIndex of
              None \<Rightarrow> lookupCalled rest argumentIndex
            | Some arg \<Rightarrow> Inr (Some (ca_type arg)))
      else Inl TypeError)"

definition getVariableType :: "string option \<Rightarrow> function_node \<Rightarrow> (error + string option) \<times> function_node" where
  "getVariableType nm fn =
     (case argumentNames fn of
        None \<Rightarrow> (Inl TypeError, fn)
      | Some names \<Rightarrow>
          (case (case nm of None \<Rightarrow> None | Some n \<Rightarrow> indexOf n names) of
             None \<Rightarrow>
               (case declarations fn (js_string nm) of
                  Some d \<Rightarrow> (Inr (decl_type d), fn)
                | None \<Rightarrow> (Inr None, fn))
           | Some argumentIndex \<Rightarrow>
               (let argumentType =
                      (if argumentIndex < length (argumentTypes fn)
                       then argumentTypes fn ! argumentIndex else None)
                in if truthy argumentType then (Inr argumentType, fn)
                   else (case parent fn of
                           None \<Rightarrow> (Inr None, fn)
                         | Some table \<Rightarrow>
                             (case map_of table (case name fn of None \<Rightarrow> ''null'' | Some n \<Rightarrow> n) of
                                None \<Rightarrow> (Inl TypeError, fn)
                              | Some calledFunctionArguments \<Rightarrow>
                                  (case lookupCalled calledFunctionArguments argumentIndex of
                                     Inl e \<Rightarrow> (Inl e, fn)
                                   | Inr None \<Rightarrow> (Inr None, fn)
                                   | Inr (Some t) \<Rightarrow>
                                       (Inr t, fn\<lparr>argumentTypes :=
                                                  js_set (argumentTypes fn) argumentIndex t\<rparr>)))))))"

text \<open>
  Reading a field of a value that may be \<^verbatim>\<open>undefined\<close>, as in
  \<^verbatim>\<open>ast.object.object.name\<close>: the read throws when the value is \<^verbatim>\<open>undefined\<close>.
\<close>
definition dot :: "('a \<Rightarrow> 'b option) \<Rightarrow> 'a option \<Rightarrow> error + 'b option" where
  "dot field v = (case v of None \<Rightarrow> Inl TypeError | Some a \<Rightarrow> Inr (field a))"

definition dot2 :: "('a \<Rightarrow> 'b option) \<Rightarrow> error + 'a option \<Rightarrow> error + 'b option" where
  "dot2 field r = (case r of Inl e \<Rightarrow> Inl e | Inr v \<Rightarrow> dot field v)"


text \<open>
  \<^verbatim>\<open>getType\<close>. \<open>typeOfVariable\<close> is \<^verbatim>\<open>typeLookupMap[this.getVariableType(n)]\<close> and
  \<open>typeOfConstant\<close> is \<^verbatim>\<open>typeLookupMap[this.getConstantType(n)]\<close>, for a name read
  through a chain of fields. \<open>getTypeMember\<close> holds the cases of the
  \<^verbatim>\<open>switch (variableSignature)\<close> that do not call \<^verbatim>\<open>getType\<close> again.
\<close>

definition typeOfVariable :: "error + string option \<Rightarrow> function_node \<Rightarrow> (error + string option) \<times> function_node" where
  "typeOfVariable nm fn =
     (case nm of
        Inl e \<Rightarrow> (Inl e, fn)
      | Inr n \<Rightarrow> (case getVariableType n fn of
                    (Inl e, fn') \<Rightarrow> (Inl e, fn')
                  | (Inr t, fn') \<Rightarrow> (Inr (typeLookup t), fn')))"

definition typeOfConstant :: "error + string option \<Rightarrow> function_node \<Rightarrow> (error + string option) \<times> function_node" where
  "typeOfConstant nm fn =
     (case nm of
        Inl e \<Rightarrow> (Inl e, fn)
      | Inr n \<Rightarrow> (Inr (typeLookup (getConstantType n fn)), fn))"

definition getTypeMember ::
  "ast \<Rightarrow> ast \<Rightarrow> bool \<Rightarrow> string option \<Rightarrow> function_node \<Rightarrow> (error + string option) \<times> function_node" where
  "getTypeMember obj prop computed variableSignature fn =
     (if variableSignature = Some ''value[]'' then
        typeOfVariable (dot name_of (Some obj)) fn
      else if variableSignature = Some ''value[][]'' then
        typeOfVariable (dot2 name_of (dot object_of (Some obj))) fn
      else if variableSignature = Some ''value[][][]'' then
        typeOfVariable (dot2 name_of (dot2 object_of (dot object_of (Some obj)))) fn
      else if variableSignature = Some ''this.thread.value'' then (Inr (Some ''Integer''), fn)
      else if variableSignature = Some ''this.output.value'' then (Inr (Some ''Integer''), fn)
      else if variableSignature = Some ''this.constants.value'' then
        (Inr (getConstantType (name_of prop) fn), fn)
      else if variableSignature = Some ''this.constants.value[]'' then
        typeOfConstant (dot2 name_of (dot property_of (Some obj))) fn
      else if variableSignature = Some ''this.constants.value[][]'' then
        typeOfConstant (dot2 name_of (dot2 property_of (dot object_of (Some obj)))) fn
      else if variableSignature = Some ''this.constants.value[][][]'' then
        typeOfConstant (dot2 name_of (dot2 property_of (dot2 object_of (dot object_of (Some obj))))) fn
      else if variableSignature = Some ''value.value'' then
        (if isAstMathVariable (MemberExpression obj prop computed)
         then (Inr (Some ''Number''), fn)
         else if name_of prop = Some ''r'' \<or> name_of prop = Some ''g''
                 \<or> name_of prop = Some ''b'' \<or> name_of prop = Some ''a''
         then typeOfVariable (Inr (name_of obj)) fn
         else (Inl (AstError ''Unhandled getType MemberExpression''
                      (MemberExpression obj prop computed)), fn))
      else (Inl (AstError ''Unhandled getType MemberExpression''
                   (MemberExpression obj prop computed)), fn))"

lemma last_opt_size [termination_simp]:
  "last_opt xs = Some a \<Longrightarrow> size a < Suc (size_list size xs)"
  by (induction xs) (auto simp: last_opt_def split: if_splits)

lemma last_opt_size2 [termination_simp]:
  "last_opt xs = Some a \<Longrightarrow> size a < Suc (k + m + size_list size xs)"
  by (induction xs) (auto simp: last_opt_def split: if_splits)

fun getType :: "ast \<Rightarrow> function_node \<Rightarrow> (error + string option) \<times> function_node" where
  "getType (BlockStatement body) fn =
     (case last_opt body of None \<Rightarrow> (Inl TypeError, fn) | Some a \<Rightarrow> getType a fn)"
| "getType (ArrayExpression elements) fn =
     (Inr (Some (''Array('' @ show_nat (length elements) @ '')'')), fn)"
| "getType (Literal v) fn =
     (if isIntegerLiteral v then (Inr (Some ''LiteralInteger''), fn)
      else (Inr (Some ''Number''), fn))"
| "getType (CallExpression callee args) fn =
     (if isAstMathFunction (CallExpression callee args) then (Inr (Some ''Number''), fn)
      else if truthy (name_of callee)
      then (case lookupReturnType fn of
              Some lookup \<Rightarrow> (Inr (lookup (js_string (name_of callee))), fn)
            | None \<Rightarrow> (Inr None, fn))
      else (Inr None, fn))"
| "getType (BinaryExpression operator l r) fn =
     (if operator = ''%'' then (Inr (Some ''Number''), fn)
      else if operator = ''>'' \<or> operator = ''<'' then (Inr (Some ''Boolean''), fn)
      else (case getType l fn of
              (Inl e, fn') \<Rightarrow> (Inl e, fn')
            | (Inr t, fn') \<Rightarrow>
                (Inr (case typeLookup t of Some u \<Rightarrow> Some u | None \<Rightarrow> t), fn')))"
| "getType (UpdateExpression operator pre argument) fn = getType argument fn"
| "getType (UnaryExpression operator pre argument) fn = getType argument fn"
| "getType (VariableDeclaration decls) fn =
     (case decls of [] \<Rightarrow> (Inl TypeError, fn) | d # ds \<Rightarrow> getType d fn)"
| "getType (VariableDeclarator ident init) fn = getType ident fn"
| "getType (Identifier n) fn =
     (case argumentNames fn of
        None \<Rightarrow> (Inl TypeError, fn)
      | Some names \<Rightarrow>
          (if indexOf n names \<noteq> None then getVariableType (Some n) fn
           else (case declarations fn n of
                   Some d \<Rightarrow> (Inr (decl_type d), fn)
                 | None \<Rightarrow>
                     (if n = ''Infinity'' then (Inr (Some ''Integer''), fn)
                      else (Inr None, fn)))))"
| "getType (ReturnStatement argument) fn =
     (case argument of None \<Rightarrow> (Inl TypeError, fn) | Some a \<Rightarrow> getType a fn)"
| "getType (MemberExpression obj prop computed) fn =
     (if isAstMathFunction (MemberExpression obj prop computed)
      then (if name_of prop = Some ''ceil'' then (Inr (Some ''Integer''), fn)
            else if name_of prop = Some ''floor'' then (Inr (Some ''Integer''), fn)
            else if name_of prop = Some ''round'' then (Inr (Some ''Integer''), fn)
            else (Inr (Some ''Number''), fn))
      else
       (case getVariableSignature (MemberExpression obj prop computed) of
          Inl e \<Rightarrow> (Inl e, fn)
        | Inr variableSignature \<Rightarrow>
           (if variableSignature = Some ''fn()[]'' \<or> variableSignature = Some ''fn()[][]''
                    \<or> variableSignature = Some ''fn()[][][]'' then
              (case getType obj fn of
                 (Inl e, fn') \<Rightarrow> (Inl e, fn')
               | (Inr t, fn') \<Rightarrow> (Inr (typeLookup t), fn'))
            else getTypeMember obj prop computed variableSignature fn)))"
| "getType (FunctionDeclaration ident params body) fn =
     (case last_opt body of None \<Rightarrow> (Inl TypeError, fn) | Some a \<Rightarrow> getType a fn)"
| "getType (ConditionalExpression test consequent alternate) fn = getType consequent fn"
| "getType a fn = (Inl (AstError (''Unhandled getType Type \"'' @ type_of a @ ''\"'') a), fn)"

section \<open>The member-expression decomposer\<close>

text \<open>
  The descriptor \<^verbatim>\<open>getMemberExpressionDetails\<close> returns:
  \<^verbatim>\<open>{ name, origin, signature, type, xProperty, yProperty, zProperty, property }\<close>,
  a field that an object literal leaves out being \<open>None\<close>. \<^verbatim>\<open>property\<close> is a
  name for a channel access and a node for \<^verbatim>\<open>fn()[]\<close>.
\<close>

datatype propval = PropName string | PropNode ast

record descriptor =
  d_name :: "string option"
  d_origin :: "string option"
  d_signature :: string
  d_type :: "string option"
  xProperty :: "ast option"
  yProperty :: "ast option"
  zProperty :: "ast option"
  d_property :: "propval option"

text \<open>
  \<open>userDetails\<close> is the common part of the cases \<^verbatim>\<open>value[]\<close>, \<^verbatim>\<open>value[][]\<close> and
  \<^verbatim>\<open>value[][][]\<close> (the name must be a string; the type is
  \<^verbatim>\<open>this.getVariableType(name)\<close>), \<open>constantDetails\<close> that of the four
  \<^verbatim>\<open>this.constants.value\<close> cases (the constant must have a type).
\<close>

definition emptyDescriptor :: "string \<Rightarrow> descriptor" where
  "emptyDescriptor sig = \<lparr> d_name = None, d_origin = None, d_signature = sig, d_type = None,
     xProperty = None, yProperty = None, zProperty = None, d_property = None \<rparr>"

definition unexpected :: "ast \<Rightarrow> function_node \<Rightarrow> (error + descriptor option) \<times> function_node" where
  "unexpected a fn = (Inl (AstError ''Unexpected expression'' a), fn)"

definition userDetails ::
  "ast \<Rightarrow> string \<Rightarrow> error + string option \<Rightarrow> descriptor \<Rightarrow> function_node
     \<Rightarrow> (error + descriptor option) \<times> function_node" where
  "userDetails a sig nm d fn =
     (case nm of
        Inl e \<Rightarrow> (Inl e, fn)
      | Inr None \<Rightarrow> unexpected a fn
      | Inr (Some n) \<Rightarrow>
          (case getVariableType (Some n) fn of
             (Inl e, fn') \<Rightarrow> (Inl e, fn')
           | (Inr t, fn') \<Rightarrow>
               (Inr (Some (d\<lparr> d_name := Some n, d_origin := Some ''user'', d_signature := sig,
                               d_type := t \<rparr>)), fn')))"

definition constantDetails ::
  "ast \<Rightarrow> string \<Rightarrow> error + string option \<Rightarrow> descriptor \<Rightarrow> function_node
     \<Rightarrow> (error + descriptor option) \<times> function_node" where
  "constantDetails a sig nm d fn =
     (case nm of
        Inl e \<Rightarrow> (Inl e, fn)
      | Inr None \<Rightarrow> unexpected a fn
      | Inr (Some n) \<Rightarrow>
          (if \<not> truthy (getConstantType (Some n) fn)
           then (Inl (AstError ''Constant has no type'' a), fn)
           else (Inr (Some (d\<lparr> d_name := Some n, d_type := getConstantType (Some n) fn,
                                d_origin := Some ''constants'', d_signature := sig \<rparr>)), fn)))"

definition getMemberExpressionDetails ::
  "ast \<Rightarrow> function_node \<Rightarrow> (error + descriptor option) \<times> function_node" where
  "getMemberExpressionDetails a fn =
     (if type_of a \<noteq> ''MemberExpression''
      then (Inl (AstError (''Expression '' @ type_of a @ '' not a MemberExpression'') a), fn)
      else
       (case getVariableSignature a of
          Inl e \<Rightarrow> (Inl e, fn)
        | Inr variableSignature \<Rightarrow>
           (let obj = object_of a; prop = property_of a;
                sig = js_string variableSignature in
            if variableSignature = Some ''value'' then (Inr None, fn)
            else if variableSignature = Some ''this.thread.value''
                    \<or> variableSignature = Some ''this.output.value'' then
              (case dot name_of prop of
                 Inl e \<Rightarrow> (Inl e, fn)
               | Inr n \<Rightarrow>
                   (Inr (Some ((emptyDescriptor sig)\<lparr> d_type := Some ''Integer'', d_name := n \<rparr>)), fn))
            else if variableSignature = Some ''value[]'' then
              userDetails a sig (dot name_of obj) ((emptyDescriptor sig)\<lparr> xProperty := prop \<rparr>) fn
            else if variableSignature = Some ''value[][]'' then
              userDetails a sig (dot2 name_of (dot object_of obj))
                ((emptyDescriptor sig)\<lparr> yProperty := Option.bind obj property_of, xProperty := prop \<rparr>) fn
            else if variableSignature = Some ''value[][][]'' then
              userDetails a sig (dot2 name_of (dot2 object_of (dot object_of obj)))
                ((emptyDescriptor sig)\<lparr>
                    zProperty := Option.bind (Option.bind obj object_of) property_of,
                    yProperty := Option.bind obj property_of, xProperty := prop \<rparr>) fn
            else if variableSignature = Some ''value.value'' then
              (case dot name_of prop of
                 Inl e \<Rightarrow> (Inl e, fn)
               | Inr None \<Rightarrow> unexpected a fn
               | Inr (Some pn) \<Rightarrow>
                   (if isAstMathVariable a then
                      (Inr (Some ((emptyDescriptor sig)\<lparr> d_name := Some pn, d_origin := Some ''Math'',
                                     d_type := Some ''Number'' \<rparr>)), fn)
                    else if pn = ''r'' \<or> pn = ''g'' \<or> pn = ''b'' \<or> pn = ''a'' then
                      (case dot name_of obj of
                         Inl e \<Rightarrow> (Inl e, fn)
                       | Inr n \<Rightarrow>
                           (Inr (Some ((emptyDescriptor sig)\<lparr> d_name := n,
                                          d_property := Some (PropName pn), d_origin := Some ''user'',
                                          d_type := Some ''Number'' \<rparr>)), fn))
                    else unexpected a fn))
            else if variableSignature = Some ''this.constants.value'' then
              constantDetails a sig (dot name_of prop) (emptyDescriptor sig) fn
            else if variableSignature = Some ''this.constants.value[]'' then
              constantDetails a sig (dot2 name_of (dot property_of obj))
                ((emptyDescriptor sig)\<lparr> xProperty := prop \<rparr>) fn
            else if variableSignature = Some ''this.constants.value[][]'' then
              constantDetails a sig (dot2 name_of (dot2 property_of (dot object_of obj)))
                ((emptyDescriptor sig)\<lparr> yProperty := Option.bind obj property_of, xProperty := prop \<rparr>) fn
            else if variableSignature = Some ''this.constants.value[][][]'' then
              constantDetails a sig
                (dot2 name_of (dot2 property_of (dot2 object_of (dot object_of obj))))
                ((emptyDescriptor sig)\<lparr>
                    zProperty := Option.bind (Option.bind obj object_of) property_of,
                    yProperty := Option.bind obj property_of, xProperty := prop \<rparr>) fn
            else if variableSignature = Some ''fn()[]'' then
              (Inr (Some ((emptyDescriptor sig)\<lparr> d_property := map_option PropNode prop \<rparr>)), fn)
            else unexpected a fn)))"

section \<open>The dependency and safety analyzer\<close>

text \<open>
  \<^verbatim>\<open>isSafeDependencies\<close>: \<^verbatim>\<open>dependencies.every(d => d.isSafe)\<close> when there is an
  array, \<^verbatim>\<open>true\<close> otherwise.
\<close>

definition isSafeDependencies :: "depsval \<Rightarrow> bool" where
  "isSafeDependencies dependencies =
     (case dependencies of DepList ds \<Rightarrow> list_all dep_isSafe ds | _ \<Rightarrow> True)"

text \<open>
  \<^verbatim>\<open>ast.value > -Infinity && ast.value < Infinity && !isNaN(ast.value)\<close>;
  \<^verbatim>\<open>true\<close>, \<^verbatim>\<open>false\<close> and \<^verbatim>\<open>null\<close> compare as the numbers 1, 0 and 0.
\<close>

definition literalIsFinite :: "litval \<Rightarrow> bool" where
  "literalIsFinite v = (case v of LNum (Finite q) \<Rightarrow> True | LNum _ \<Rightarrow> False | _ \<Rightarrow> True)"

text \<open>
  \<^verbatim>\<open>getDependencies(ast, dependencies, isNotSafe)\<close>. The array \<^verbatim>\<open>dependencies\<close> is
  changed in place, so the function returns it as it is after the call, next to
  the value the call returns: the array itself (\<open>RetDependencies\<close>), \<^verbatim>\<open>null\<close>,
  or the \<^verbatim>\<open>type\<close> of a descriptor. \<^verbatim>\<open>isNotSafe\<close> is \<^verbatim>\<open>true\<close>, or
  \<^verbatim>\<open>false\<close>/\<^verbatim>\<open>undefined\<close>, which no test in the function tells apart.
  \<open>getDependencies_array\<close> is the loop for an array argument; an argument that is
  \<^verbatim>\<open>null\<close> returns \<^verbatim>\<open>null\<close>. \<open>getDependencies_top\<close> is the call
  \<^verbatim>\<open>this.getDependencies(ast)\<close> with a fresh array.
\<close>

datatype depret = RetDependencies | RetNull | RetType "string option"

fun getDependencies ::
      "ast \<Rightarrow> dependency list \<Rightarrow> bool \<Rightarrow> function_node
         \<Rightarrow> (error + depret) \<times> dependency list \<times> function_node"
  and getDependencies_array ::
      "ast list \<Rightarrow> dependency list \<Rightarrow> bool \<Rightarrow> function_node
         \<Rightarrow> (error + depret) \<times> dependency list \<times> function_node" where
  "getDependencies_array [] dependencies isNotSafe fn = (Inr RetDependencies, dependencies, fn)"
| "getDependencies_array (a # rest) dependencies isNotSafe fn =
     (case getDependencies a dependencies isNotSafe fn of
        (Inl e, deps', fn') \<Rightarrow> (Inl e, deps', fn')
      | (Inr r, deps', fn') \<Rightarrow> getDependencies_array rest deps' isNotSafe fn')"
| "getDependencies (Literal v) dependencies isNotSafe fn =
     (Inr RetDependencies,
      dependencies @ [\<lparr> dep_origin = ''literal'', dep_name = None, dep_value = Some v,
                         dep_isSafe = (if isNotSafe then False else literalIsFinite v) \<rparr>],
      fn)"
| "getDependencies (VariableDeclarator ident init) dependencies isNotSafe fn =
     (case init of
        None \<Rightarrow> (Inr RetNull, dependencies, fn)
      | Some a \<Rightarrow> getDependencies a dependencies isNotSafe fn)"
| "getDependencies (Identifier n) dependencies isNotSafe fn =
     (case declarations fn n of
        Some d \<Rightarrow>
          (Inr RetDependencies,
           dependencies @ [\<lparr> dep_origin = ''declaration'', dep_name = Some n, dep_value = None,
                              dep_isSafe = (if isNotSafe then False
                                            else isSafeDependencies (decl_dependencies d)) \<rparr>],
           fn)
      | None \<Rightarrow>
          (case argumentNames fn of
             None \<Rightarrow> (Inl TypeError, dependencies, fn)
           | Some names \<Rightarrow>
               (if indexOf n names \<noteq> None
                then (Inr RetDependencies,
                      dependencies @ [\<lparr> dep_origin = ''argument'', dep_name = Some n,
                                         dep_value = None, dep_isSafe = False \<rparr>],
                      fn)
                else (Inr RetDependencies, dependencies, fn))))"
| "getDependencies (FunctionDeclaration ident params body) dependencies isNotSafe fn =
     (case last_opt body of
        None \<Rightarrow> (Inr RetNull, dependencies, fn)
      | Some a \<Rightarrow> getDependencies a dependencies isNotSafe fn)"
| "getDependencies (ReturnStatement argument) dependencies isNotSafe fn =
     (case argument of
        None \<Rightarrow> (Inr RetNull, dependencies, fn)
      | Some a \<Rightarrow> getDependencies a dependencies False fn)"
| "getDependencies (BinaryExpression operator l r) dependencies isNotSafe fn =
     (case getDependencies l dependencies (operator = ''/'' \<or> operator = ''*'') fn of
        (Inl e, deps', fn') \<Rightarrow> (Inl e, deps', fn')
      | (Inr res, deps', fn') \<Rightarrow>
          (case getDependencies r deps' (operator = ''/'' \<or> operator = ''*'') fn' of
             (Inl e, deps'', fn'') \<Rightarrow> (Inl e, deps'', fn'')
           | (Inr res', deps'', fn'') \<Rightarrow> (Inr RetDependencies, deps'', fn'')))"
| "getDependencies (UpdateExpression operator pre argument) dependencies isNotSafe fn =
     getDependencies argument dependencies isNotSafe fn"
| "getDependencies (VariableDeclaration decls) dependencies isNotSafe fn =
     getDependencies_array decls dependencies isNotSafe fn"
| "getDependencies (ArrayExpression elements) dependencies isNotSafe fn =
     (Inr RetDependencies,
      dependencies @ [\<lparr> dep_origin = ''declaration'', dep_name = None, dep_value = None,
                         dep_isSafe = True \<rparr>],
      fn)"
| "getDependencies (CallExpression callee args) dependencies isNotSafe fn =
     (Inr RetDependencies,
      dependencies @ [\<lparr> dep_origin = ''function'', dep_name = None, dep_value = None,
                         dep_isSafe = True \<rparr>],
      fn)"
| "getDependencies (MemberExpression obj prop computed) dependencies isNotSafe fn =
     (case getMemberExpressionDetails (MemberExpression obj prop computed) fn of
        (Inl e, fn') \<Rightarrow> (Inl e, dependencies, fn')
      | (Inr (Some details), fn') \<Rightarrow> (Inr (RetType (d_type details)), dependencies, fn')
      | (Inr None, fn') \<Rightarrow>
          (Inl (AstError (''Unhandled type '' @ type_of (MemberExpression obj prop computed)
                            @ '' in getAllVariables'') (MemberExpression obj prop computed)),
           dependencies, fn'))"
| "getDependencies a dependencies isNotSafe fn =
     (Inl (AstError (''Unhandled type '' @ type_of a @ '' in getAllVariables'') a),
      dependencies, fn)"


definition getDependencies_top :: "ast option \<Rightarrow> function_node \<Rightarrow> (error + depsval) \<times> function_node" where
  "getDependencies_top a fn =
     (case a of
        None \<Rightarrow> (Inr DepNull, fn)
      | Some node \<Rightarrow>
          (case getDependencies node [] False fn of
             (Inl e, deps, fn') \<Rightarrow> (Inl e, fn')
           | (Inr RetDependencies, deps, fn') \<Rightarrow> (Inr (DepList deps), fn')
           | (Inr RetNull, deps, fn') \<Rightarrow> (Inr DepNull, fn')
           | (Inr (RetType t), deps, fn') \<Rightarrow> (Inr (DepType t), fn')))"

section \<open>The generic walker\<close>

text \<open>
  The output buffer \<^verbatim>\<open>retArr\<close> is an array of strings; \<^verbatim>\<open>retArr.push(retArr, ...)\<close>
  in \<^verbatim>\<open>astVariableDeclaration\<close> also stores the array in itself, the element
  \<open>SelfRef\<close>. \<^verbatim>\<open>join\<close> prints an array that contains itself as the empty string
  at that place.
\<close>

datatype frag = Str string | SelfRef

definition frag_text :: "frag \<Rightarrow> string" where
  "frag_text f = (case f of Str s \<Rightarrow> s | SelfRef \<Rightarrow> [])"

fun js_join :: "string \<Rightarrow> frag list \<Rightarrow> string" where
  "js_join sep [] = []"
| "js_join sep [f] = frag_text f"
| "js_join sep (f # g # fs) = frag_text f @ sep @ js_join sep (g # fs)"

text \<open>\<^verbatim>\<open>astFunctionDeclaration\<close>: the nested-function hook.\<close>

definition astFunctionDeclaration ::
  "ast \<Rightarrow> frag list \<Rightarrow> function_node \<Rightarrow> error option \<times> frag list \<times> function_node" where
  "astFunctionDeclaration a retArr fn =
     (if onNestedFunction fn
      then (case getType a fn of
              (Inl e, fn') \<Rightarrow> (Some e, retArr, fn')
            | (Inr t, fn') \<Rightarrow>
                (None, retArr,
                 fn'\<lparr>nestedCalls := nestedCalls fn' @
                        [(a, if t = Some ''LiteralInteger'' then Some ''Number'' else t)]\<rparr>))
      else (None, retArr, fn))"

text \<open>\<^verbatim>\<open>this.declarations[name] = Object.freeze(record)\<close>.\<close>

definition setDeclaration :: "string option \<Rightarrow> decl_record \<Rightarrow> function_node \<Rightarrow> function_node" where
  "setDeclaration nm d fn = fn\<lparr>declarations := (declarations fn)(js_string nm \<mapsto> d)\<rparr>"

text \<open>
  The part of \<^verbatim>\<open>astVariableDeclaration\<close> from the inference of the type to the
  record of the first declarator; it returns the type and the printed name.
  \<^verbatim>\<open>typeMap\<close> is not defined in the file (the backend supplies it), so it is an
  argument; it has no entry for a type that is \<^verbatim>\<open>null\<close> or \<^verbatim>\<open>undefined\<close>.
  \<^verbatim>\<open>dependencies.every\<close> throws when \<^verbatim>\<open>getDependencies\<close> returned no array.
\<close>

definition firstDeclarationRecord ::
  "(string \<Rightarrow> string option) \<Rightarrow> ast \<Rightarrow> ast \<Rightarrow> ast \<Rightarrow> function_node
     \<Rightarrow> (error + string \<times> string) \<times> function_node" where
  "firstDeclarationRecord typeMap varDecNode firstDeclaration init fn =
     (case (if isState ''in-for-loop-init'' fn then (Inr (Some ''Integer''), fn)
            else getType init fn) of
        (Inl e, fn1) \<Rightarrow> (Inl e, fn1)
      | (Inr t, fn1) \<Rightarrow>
        (case (if t = Some ''LiteralInteger'' then Some ''Number'' else t) of
           None \<Rightarrow> (Inl (AstError ''Markup type undefined not handled'' varDecNode), fn1)
         | Some ty \<Rightarrow>
           (if \<not> truthy (typeMap ty)
            then (Inl (AstError (''Markup type '' @ js_string (typeMap ty) @ '' not handled'')
                         varDecNode), fn1)
            else
             (case getDependencies_top (Some init) fn1 of
                (Inl e, fn2) \<Rightarrow> (Inl e, fn2)
              | (Inr dependencies, fn2) \<Rightarrow>
                (case id_of firstDeclaration of
                   None \<Rightarrow> (Inl TypeError, fn2)
                 | Some ident \<Rightarrow>
                   (case dependencies of
                      DepList ds \<Rightarrow>
                        (Inr (ty, js_string (name_of ident)),
                         setDeclaration (name_of ident)
                           \<lparr> decl_type = Some ty, decl_dependencies = dependencies,
                             decl_isSafe = list_all dep_isSafe ds \<rparr> fn2)
                    | _ \<Rightarrow> (Inl TypeError, fn2)))))))"

text \<open>
  \<^verbatim>\<open>astGeneric(ast, retArr)\<close> with the handlers it dispatches to. A call returns
  the error it throws, if any, the buffer and the unit as it leaves them.
  \<open>astGeneric_array\<close> is the loop for an array argument,
  \<open>astVariableDeclaration_rest\<close> the loop of \<^verbatim>\<open>astVariableDeclaration\<close> over the
  declarators after the first, and \<open>astSequenceExpression_loop\<close> the loop of
  \<^verbatim>\<open>astSequenceExpression\<close>, counted by the iterations \<open>k\<close> still to run: the
  index is \<open>i = length expressions - k\<close>, and \<^verbatim>\<open>i > 0\<close> is
  \<open>k < length expressions\<close> at the start of an iteration. Every iteration passes
  \<^verbatim>\<open>sNode.expressions\<close>, the whole array, to \<^verbatim>\<open>astGeneric\<close>. The handlers call
  \<^verbatim>\<open>astGeneric\<close> on nodes and arrays only (the declarator tests its initialiser
  for \<^verbatim>\<open>null\<close> first), so the entry test \<^verbatim>\<open>ast === null\<close> has no equation. The
  handlers that only return \<^verbatim>\<open>retArr\<close> are the hooks a backend overrides.
\<close>

lemma init_of_size [termination_simp]:
  "init_of d = Some i \<Longrightarrow> size i < Suc (Suc (size d + k))"
  by (cases d) auto

fun astGeneric ::
      "(string \<Rightarrow> string option) \<Rightarrow> ast \<Rightarrow> frag list \<Rightarrow> function_node
         \<Rightarrow> error option \<times> frag list \<times> function_node"
  and astGeneric_array ::
      "(string \<Rightarrow> string option) \<Rightarrow> ast list \<Rightarrow> frag list \<Rightarrow> function_node
         \<Rightarrow> error option \<times> frag list \<times> function_node"
  and astVariableDeclaration_rest ::
      "(string \<Rightarrow> string option) \<Rightarrow> string option \<Rightarrow> ast list \<Rightarrow> frag list \<Rightarrow> function_node
         \<Rightarrow> error option \<times> frag list \<times> function_node"
  and astSequenceExpression_loop ::
      "(string \<Rightarrow> string option) \<Rightarrow> ast list \<Rightarrow> nat \<Rightarrow> frag list \<Rightarrow> function_node
         \<Rightarrow> error option \<times> frag list \<times> function_node" where
  "astGeneric_array typeMap [] retArr fn = (None, retArr, fn)"
| "astGeneric_array typeMap (a # rest) retArr fn =
     (case astGeneric typeMap a retArr fn of
        (Some e, r, fn') \<Rightarrow> (Some e, r, fn')
      | (None, r, fn') \<Rightarrow> astGeneric_array typeMap rest r fn')"
| "astVariableDeclaration_rest typeMap ty [] result fn = (None, result, fn)"
| "astVariableDeclaration_rest typeMap ty (declaration # rest) result fn =
     (case getDependencies_top (Some declaration) fn of
        (Inl e, fn1) \<Rightarrow> (Some e, result, fn1)
      | (Inr dependencies, fn1) \<Rightarrow>
          (case id_of declaration of
             None \<Rightarrow> (Some TypeError, result, fn1)
           | Some ident \<Rightarrow>
               (case astGeneric typeMap declaration result
                       (setDeclaration (name_of ident)
                          \<lparr> decl_type = ty, decl_dependencies = dependencies,
                            decl_isSafe = False \<rparr> fn1) of
                  (Some e, r, fn2) \<Rightarrow> (Some e, r, fn2)
                | (None, r, fn2) \<Rightarrow> astVariableDeclaration_rest typeMap ty rest r fn2)))"
| "astSequenceExpression_loop typeMap expressions 0 retArr fn = (None, retArr, fn)"
| "astSequenceExpression_loop typeMap expressions (Suc k) retArr fn =
     (case astGeneric_array typeMap expressions
             (if Suc k < length expressions then retArr @ [Str '',''] else retArr) fn of
        (Some e, r, fn') \<Rightarrow> (Some e, r, fn')
      | (None, r, fn') \<Rightarrow> astSequenceExpression_loop typeMap expressions k r fn')"
| "astGeneric typeMap (FunctionDeclaration ident params body) retArr fn =
     astFunctionDeclaration (FunctionDeclaration ident params body) retArr fn"
| "astGeneric typeMap (FunctionExpression ident params body) retArr fn = (None, retArr, fn)"
| "astGeneric typeMap (ReturnStatement argument) retArr fn = (None, retArr, fn)"
| "astGeneric typeMap (Literal v) retArr fn = (None, retArr, fn)"
| "astGeneric typeMap (BinaryExpression operator l r) retArr fn = (None, retArr, fn)"
| "astGeneric typeMap (Identifier n) retArr fn = (None, retArr, fn)"
| "astGeneric typeMap (AssignmentExpression operator l r) retArr fn = (None, retArr, fn)"
| "astGeneric typeMap (ExpressionStatement expression) retArr fn =
     (case astGeneric typeMap expression retArr fn of
        (Some e, r, fn') \<Rightarrow> (Some e, r, fn')
      | (None, r, fn') \<Rightarrow> (None, r @ [Str '';''], fn'))"
| "astGeneric typeMap EmptyStatement retArr fn = (None, retArr, fn)"
| "astGeneric typeMap (BlockStatement body) retArr fn = (None, retArr, fn)"
| "astGeneric typeMap (IfStatement test consequent alternate) retArr fn = (None, retArr, fn)"
| "astGeneric typeMap BreakStatement retArr fn = (None, retArr @ [Str ''break;''], fn)"
| "astGeneric typeMap ContinueStatement retArr fn = (None, retArr @ [Str ''continue;\<newline>''], fn)"
| "astGeneric typeMap (ForStatement init test update body) retArr fn = (None, retArr, fn)"
| "astGeneric typeMap (WhileStatement test body) retArr fn = (None, retArr, fn)"
| "astGeneric typeMap (DoWhileStatement body test) retArr fn = (None, retArr, fn)"
| "astGeneric typeMap (VariableDeclaration decls) retArr fn =
     (case decls of
        [] \<Rightarrow> (Some (AstError ''Unexpected expression'' (VariableDeclaration decls)), retArr, fn)
      | firstDeclaration # rest \<Rightarrow>
        (case init_of firstDeclaration of
           None \<Rightarrow> (Some (AstError ''Unexpected expression'' (VariableDeclaration decls)), retArr, fn)
         | Some init \<Rightarrow>
           (case firstDeclarationRecord typeMap (VariableDeclaration decls) firstDeclaration init fn of
              (Inl e, fn1) \<Rightarrow> (Some e, retArr, fn1)
            | (Inr (ty, nm), fn1) \<Rightarrow>
              (case astGeneric typeMap init [Str (ty @ '' user_'' @ nm @ ''='')] fn1 of
                 (Some e, initResult, fn2) \<Rightarrow> (Some e, retArr, fn2)
               | (None, initResult, fn2) \<Rightarrow>
                  (case astVariableDeclaration_rest typeMap (Some ty) rest
                          [Str (js_join [] initResult)] fn2 of
                     (Some e, result, fn3) \<Rightarrow> (Some e, retArr, fn3)
                   | (None, result, fn3) \<Rightarrow>
                       (None, retArr @ [SelfRef, Str (js_join '','' result), Str '';''], fn3))))))"
| "astGeneric typeMap (VariableDeclarator ident init) retArr fn =
     (case astGeneric typeMap ident retArr fn of
        (Some e, r, fn') \<Rightarrow> (Some e, r, fn')
      | (None, r, fn') \<Rightarrow>
          (case init of
             None \<Rightarrow> (None, r, fn')
           | Some i \<Rightarrow> astGeneric typeMap i (r @ [Str ''='']) fn'))"
| "astGeneric typeMap ThisExpression retArr fn = (None, retArr, fn)"
| "astGeneric typeMap (SequenceExpression expressions) retArr fn =
     astSequenceExpression_loop typeMap expressions (length expressions) retArr fn"
| "astGeneric typeMap (UnaryExpression operator pre argument) retArr fn =
     (if pre then astGeneric typeMap argument (retArr @ [Str operator]) fn
      else (case astGeneric typeMap argument retArr fn of
              (Some e, r, fn') \<Rightarrow> (Some e, r, fn')
            | (None, r, fn') \<Rightarrow> (None, r @ [Str operator], fn')))"
| "astGeneric typeMap (UpdateExpression operator pre argument) retArr fn =
     (if pre then astGeneric typeMap argument (retArr @ [Str operator]) fn
      else (case astGeneric typeMap argument retArr fn of
              (Some e, r, fn') \<Rightarrow> (Some e, r, fn')
            | (None, r, fn') \<Rightarrow> (None, r @ [Str operator], fn')))"
| "astGeneric typeMap (LogicalExpression operator l r) retArr fn =
     (case astGeneric typeMap l (retArr @ [Str ''('']) fn of
        (Some e, r1, fn1) \<Rightarrow> (Some e, r1, fn1)
      | (None, r1, fn1) \<Rightarrow>
          (case astGeneric typeMap r (r1 @ [Str operator]) fn1 of
             (Some e, r2, fn2) \<Rightarrow> (Some e, r2, fn2)
           | (None, r2, fn2) \<Rightarrow> (None, r2 @ [Str '')''], fn2)))"
| "astGeneric typeMap (MemberExpression obj prop computed) retArr fn = (None, retArr, fn)"
| "astGeneric typeMap (CallExpression callee args) retArr fn = (None, retArr, fn)"
| "astGeneric typeMap (ArrayExpression elements) retArr fn = (None, retArr, fn)"
| "astGeneric typeMap DebuggerStatement retArr fn = (None, retArr, fn)"
| "astGeneric typeMap (ConditionalExpression test consequent alternate) retArr fn =
     (case astGeneric typeMap test (retArr @ [Str ''('']) fn of
        (Some e, r1, fn1) \<Rightarrow> (Some e, r1, fn1)
      | (None, r1, fn1) \<Rightarrow>
          (case astGeneric typeMap consequent (r1 @ [Str ''?'']) fn1 of
             (Some e, r2, fn2) \<Rightarrow> (Some e, r2, fn2)
           | (None, r2, fn2) \<Rightarrow>
               (case astGeneric typeMap alternate (r2 @ [Str '':'']) fn2 of
                  (Some e, r3, fn3) \<Rightarrow> (Some e, r3, fn3)
                | (None, r3, fn3) \<Rightarrow> (None, r3 @ [Str '')''], fn3))))"
| "astGeneric typeMap (OtherNode t) retArr fn =
     (Some (AstError (''Unknown ast type : '' @ t) (OtherNode t)), retArr, fn)"

section \<open>Construction and serialisation\<close>

text \<open>
  The helpers of \<^verbatim>\<open>utils\<close> that the constructor and \<^verbatim>\<open>validate\<close> call are not
  part of this file; they are arguments, as a record.
\<close>

record utils =
  getFunctionNameFromString :: "string \<Rightarrow> string option"
  getArgumentNamesFromString :: "string \<Rightarrow> string list"
  isFunctionString :: "string \<Rightarrow> bool"

text \<open>
  The \<^verbatim>\<open>settings\<close> object. The constructor copies a property of it when the unit
  already has a field of that name; these are the fields of \<open>function_node\<close>. A
  property the object does not have is \<open>None\<close>.
\<close>

record settings =
  set_source :: "(jssource) option"
  set_name :: "(string option) option"
  set_calledFunctions :: "(string list) option"
  set_calledFunctionsArguments :: "(called_table) option"
  set_constants :: "((string \<times> jsval) list) option"
  set_constantTypes :: "((string \<times> string) list) option"
  set_isRootKernel :: "(bool) option"
  set_isSubKernel :: "(bool) option"
  set_parent :: "(called_table option) option"
  set_debug :: "(jsval) option"
  set_declarations :: "(string \<rightharpoonup> decl_record) option"
  set_states :: "(string list) option"
  set_lookupReturnType :: "((string \<Rightarrow> string option) option) option"
  set_onNestedFunction :: "(bool) option"
  set_loopMaxIterations :: "(int option) option"
  set_argumentNames :: "(string list option) option"
  set_argumentTypes :: "(string option list) option"
  set_argumentSizes :: "(jsval list) option"
  set_returnType :: "(string option) option"
  set_output :: "(int list) option"
  set_plugins :: "(jsval) option"

definition noSettings :: settings where
  "noSettings = \<lparr> set_source = None,
     set_name = None,
     set_calledFunctions = None,
     set_calledFunctionsArguments = None,
     set_constants = None,
     set_constantTypes = None,
     set_isRootKernel = None,
     set_isSubKernel = None,
     set_parent = None,
     set_debug = None,
     set_declarations = None,
     set_states = None,
     set_lookupReturnType = None,
     set_onNestedFunction = None,
     set_loopMaxIterations = None,
     set_argumentNames = None,
     set_argumentTypes = None,
     set_argumentSizes = None,
     set_returnType = None,
     set_output = None,
     set_plugins = None \<rparr>"

definition override :: "'a option \<Rightarrow> 'a \<Rightarrow> 'a" where
  "override s v = (case s of None \<Rightarrow> v | Some x \<Rightarrow> x)"

text \<open>\<^verbatim>\<open>validate\<close>; \<open>None\<close> when it returns without throwing.\<close>

definition validate :: "utils \<Rightarrow> function_node \<Rightarrow> error option" where
  "validate u fn =
     (case source fn of
        SourceString text \<Rightarrow>
          (if \<not> isFunctionString u text
           then Some (PlainError ''this.source not a function string'')
           else if \<not> truthy (name fn) then Some (PlainError ''this.name could not be set'')
           else if length (argumentTypes fn) > 0 \<and> argumentNames fn = None then Some TypeError
           else if length (argumentTypes fn) > 0
                   \<and> argumentNames fn \<noteq> None
                   \<and> length (argumentTypes fn) \<noteq> length (the (argumentNames fn))
           then Some (PlainError (''argumentTypes count of '' @ show_nat (length (argumentTypes fn))
                                   @ '' exceeds '' @ show_nat (length (the (argumentNames fn)))))
           else if length (output fn) < 1 then Some (PlainError ''this.output is not big enough'')
           else None)
      | _ \<Rightarrow> Some (PlainError ''this.source not a string''))"

text \<open>
  \<^verbatim>\<open>new FunctionNode(source, settings)\<close>. \<open>initialFields\<close> is the unit after the
  assignments that precede the loop over the settings, \<open>copySettings\<close> is that
  loop, \<open>defaultReturnType\<close> the default of the return type; \<^verbatim>\<open>validate\<close> runs
  last.
\<close>

definition initialFields :: "utils \<Rightarrow> jssource \<Rightarrow> settings \<Rightarrow> function_node" where
  "initialFields u src st =
     \<lparr> source = src,
       name = (case src of
                 SourceString text \<Rightarrow>
                   (if set_isRootKernel st = Some True then Some ''kernel''
                    else if truthy (Option.bind (set_name st) id)
                    then Option.bind (set_name st) id
                    else getFunctionNameFromString u text)
               | _ \<Rightarrow> None),
       calledFunctions = [], calledFunctionsArguments = [], constants = [],
       constantTypes = [], isRootKernel = False, isSubKernel = False, parent = None,
       debug = JNull, declarations = Map.empty, states = [], lookupReturnType = None,
       onNestedFunction = False, nestedCalls = [], loopMaxIterations = None,
       argumentNames = (case src of
                          SourceString text \<Rightarrow> Some (getArgumentNamesFromString u text)
                        | _ \<Rightarrow> None),
       argumentTypes = [], argumentSizes = [], returnType = None, output = [],
       plugins = JNull \<rparr>"

definition copySettings :: "settings \<Rightarrow> function_node \<Rightarrow> function_node" where
  "copySettings st fn =
     fn\<lparr>
       source := override (set_source st) (source fn),
       name := override (set_name st) (name fn),
       calledFunctions := override (set_calledFunctions st) (calledFunctions fn),
       calledFunctionsArguments := override (set_calledFunctionsArguments st) (calledFunctionsArguments fn),
       constants := override (set_constants st) (constants fn),
       constantTypes := override (set_constantTypes st) (constantTypes fn),
       isRootKernel := override (set_isRootKernel st) (isRootKernel fn),
       isSubKernel := override (set_isSubKernel st) (isSubKernel fn),
       parent := override (set_parent st) (parent fn),
       debug := override (set_debug st) (debug fn),
       declarations := override (set_declarations st) (declarations fn),
       states := override (set_states st) (states fn),
       lookupReturnType := override (set_lookupReturnType st) (lookupReturnType fn),
       onNestedFunction := override (set_onNestedFunction st) (onNestedFunction fn),
       loopMaxIterations := override (set_loopMaxIterations st) (loopMaxIterations fn),
       argumentNames := override (set_argumentNames st) (argumentNames fn),
       argumentTypes := override (set_argumentTypes st) (argumentTypes fn),
       argumentSizes := override (set_argumentSizes st) (argumentSizes fn),
       returnType := override (set_returnType st) (returnType fn),
       output := override (set_output st) (output fn),
       plugins := override (set_plugins st) (plugins fn) \<rparr>"

definition defaultReturnType :: "function_node \<Rightarrow> function_node" where
  "defaultReturnType fn =
     (if \<not> truthy (returnType fn) then fn\<lparr>returnType := Some ''Number''\<rparr> else fn)"

definition newFunctionNode :: "utils \<Rightarrow> jssource \<Rightarrow> settings option \<Rightarrow> error + function_node" where
  "newFunctionNode u src settingsArg =
     (if src = SourceMissing \<or> src = SourceString []
      then Inl (PlainError ''source parameter is missing'')
      else
       (let st = (case settingsArg of None \<Rightarrow> noSettings | Some s \<Rightarrow> s);
            this = defaultReturnType (copySettings st (initialFields u src st))
        in case validate u this of Some e \<Rightarrow> Inl e | None \<Rightarrow> Inr this))"

text \<open>
  \<^verbatim>\<open>toJSON().settings\<close>: the thirteen properties of the object literal (the
  \<^verbatim>\<open>ast\<close> that \<^verbatim>\<open>toJSON\<close> returns next to it is the cached syntax tree).
\<close>

definition toJSON :: "function_node \<Rightarrow> settings" where
  "toJSON fn =
     noSettings\<lparr>
       set_source := Some (source fn),
       set_name := Some (name fn),
       set_constants := Some (constants fn),
       set_constantTypes := Some (constantTypes fn),
       set_isRootKernel := Some (isRootKernel fn),
       set_isSubKernel := Some (isSubKernel fn),
       set_debug := Some (debug fn),
       set_output := Some (output fn),
       set_loopMaxIterations := Some (loopMaxIterations fn),
       set_argumentNames := Some (argumentNames fn),
       set_argumentTypes := Some (argumentTypes fn),
       set_argumentSizes := Some (argumentSizes fn),
       set_returnType := Some (returnType fn) \<rparr>"

text \<open>
  Values to evaluate on: helpers that read the function \<^verbatim>\<open>f\<close> with the argument
  \<^verbatim>\<open>a\<close> and accept a text that starts with \<^verbatim>\<open>function\<close>, a type map as a backend
  supplies it, and a numeric literal of an integer value.
\<close>

definition utils0 :: utils where
  "utils0 = \<lparr> getFunctionNameFromString = (\<lambda>s. Some ''f''),
               getArgumentNamesFromString = (\<lambda>s. [''a'']),
               isFunctionString = (\<lambda>s. take 8 s = ''function'') \<rparr>"

definition typeMap0 :: "string \<Rightarrow> string option" where
  "typeMap0 = map_of [(''Number'', ''float''), (''Integer'', ''int''), (''Boolean'', ''bool'')]"

definition intLiteral :: "int \<Rightarrow> ast" where
  "intLiteral n = Literal (LNum (Finite (of_int n)))"

text \<open>
  The unit \<open>unit0\<close> with the type \<open>Array\<close> for its argument, and the syntax trees
  of \<^verbatim>\<open>var a = 1, b = 2;\<close>, of \<^verbatim>\<open>2 * (1 + 3)\<close> and of \<^verbatim>\<open>a * (1 / 3)\<close>.
\<close>

definition unitA :: function_node where
  "unitA = unit0\<lparr>argumentTypes := [Some ''Array'']\<rparr>"

definition twoDeclarators :: ast where
  "twoDeclarators =
     VariableDeclaration [VariableDeclarator (Identifier ''a'') (Some (intLiteral 1)),
                          VariableDeclarator (Identifier ''b'') (Some (intLiteral 2))]"

definition mulOfSum :: ast where
  "mulOfSum = BinaryExpression ''*'' (intLiteral 2)
                (BinaryExpression ''+'' (intLiteral 1) (intLiteral 3))"

definition mulOfQuotient :: ast where
  "mulOfQuotient = BinaryExpression ''*'' (Identifier ''a'')
                     (BinaryExpression ''/'' (intLiteral 1) (intLiteral 3))"

section \<open>Predicates used in the properties\<close>

text \<open>
  \<open>keepsUnsafeContext a\<close>: on the way down from \<open>a\<close>, \<^verbatim>\<open>getDependencies\<close> never
  replaces a \<^verbatim>\<open>true\<close> \<^verbatim>\<open>isNotSafe\<close>: every binary expression it enters has the
  operator \<^verbatim>\<open>*\<close> or \<^verbatim>\<open>/\<close>, and it enters no return statement with an argument
  (that case calls itself without the flag).
\<close>

fun keepsUnsafeContext :: "ast \<Rightarrow> bool" where
  "keepsUnsafeContext (BinaryExpression operator l r) =
     ((operator = ''/'' \<or> operator = ''*'') \<and> keepsUnsafeContext l \<and> keepsUnsafeContext r)"
| "keepsUnsafeContext (ReturnStatement argument) = (argument = None)"
| "keepsUnsafeContext (UpdateExpression operator pre argument) = keepsUnsafeContext argument"
| "keepsUnsafeContext (VariableDeclarator ident init) =
     (case init of None \<Rightarrow> True | Some a \<Rightarrow> keepsUnsafeContext a)"
| "keepsUnsafeContext (VariableDeclaration decls) = list_all keepsUnsafeContext decls"
| "keepsUnsafeContext (FunctionDeclaration ident params body) =
     (case last_opt body of None \<Rightarrow> True | Some a \<Rightarrow> keepsUnsafeContext a)"
| "keepsUnsafeContext a = True"

text \<open>
  A dependency record is marked unsafe when its \<^verbatim>\<open>isSafe\<close> is \<^verbatim>\<open>false\<close>. The
  records of a call and of an array literal have neither the origin \<^verbatim>\<open>literal\<close>
  nor a name, and are always safe; \<open>markedUnsafe\<close> lets them pass.
\<close>

definition markedUnsafe :: "dependency \<Rightarrow> bool" where
  "markedUnsafe d = (\<not> dep_isSafe d \<or> (dep_origin d \<noteq> ''literal'' \<and> dep_name d = None))"

text \<open>
  \<open>walksNoDeclaration a\<close>: the walker, started on \<open>a\<close>, reaches no variable
  declaration. It holds of every expression the parser builds, since the walker
  does not enter the body of a function.
\<close>

fun walksNoDeclaration :: "ast \<Rightarrow> bool" where
  "walksNoDeclaration (VariableDeclaration decls) = False"
| "walksNoDeclaration (ExpressionStatement expression) = walksNoDeclaration expression"
| "walksNoDeclaration (VariableDeclarator ident init) =
     (walksNoDeclaration ident \<and> (case init of None \<Rightarrow> True | Some i \<Rightarrow> walksNoDeclaration i))"
| "walksNoDeclaration (SequenceExpression expressions) = list_all walksNoDeclaration expressions"
| "walksNoDeclaration (UnaryExpression operator pre argument) = walksNoDeclaration argument"
| "walksNoDeclaration (UpdateExpression operator pre argument) = walksNoDeclaration argument"
| "walksNoDeclaration (LogicalExpression operator l r) =
     (walksNoDeclaration l \<and> walksNoDeclaration r)"
| "walksNoDeclaration (ConditionalExpression test consequent alternate) =
     (walksNoDeclaration test \<and> walksNoDeclaration consequent \<and> walksNoDeclaration alternate)"
| "walksNoDeclaration a = True"

text \<open>The key \<^verbatim>\<open>declaration.id.name\<close> under which a declarator is recorded.\<close>

definition declaratorName :: "ast \<Rightarrow> string" where
  "declaratorName d = js_string (Option.bind (id_of d) name_of)"

section \<open>Properties of the traversal-state stack\<close>

text \<open>
  Claim C8. Popping with a label that is not the top of the stack raises an error
  and leaves the unit, and so the stack, as it was; popping with the label that is
  the top removes exactly that last element.
\<close>

theorem popState_checks_label:
  "(state fn \<noteq> Some l \<longrightarrow> (\<exists>m. popState l fn = (Inl (PlainError m), fn))) \<and>
   (state fn = Some l \<longrightarrow>
      (\<exists>rest. states fn = rest @ [l] \<and> popState l fn = (Inr (), fn\<lparr>states := rest\<rparr>)))"
proof (intro conjI impI)
  assume "state fn \<noteq> Some l"
  then show "\<exists>m. popState l fn = (Inl (PlainError m), fn)"
    by (simp add: popState_def)
next
  assume top: "state fn = Some l"
  then have ne: "states fn \<noteq> []" and la: "last (states fn) = l"
    by (auto simp: state_def split: if_splits)
  from ne la have "states fn = butlast (states fn) @ [l]"
    by (metis append_butlast_last_id)
  moreover from top have "popState l fn = (Inr (), fn\<lparr>states := butlast (states fn)\<rparr>)"
    by (simp add: popState_def)
  ultimately show "\<exists>rest. states fn = rest @ [l] \<and> popState l fn = (Inr (), fn\<lparr>states := rest\<rparr>)"
    by blast
qed

theorem popState_checks_label_witness:
  "state (pushState ''in-for-loop-init'' unit0) \<noteq> Some ''other'' \<and>
   (\<exists>m. popState ''other'' (pushState ''in-for-loop-init'' unit0)
          = (Inl (PlainError m), pushState ''in-for-loop-init'' unit0)) \<and>
   state (pushState ''in-for-loop-init'' unit0) = Some ''in-for-loop-init'' \<and>
   (\<exists>rest. states (pushState ''in-for-loop-init'' unit0) = rest @ [''in-for-loop-init''] \<and>
      popState ''in-for-loop-init'' (pushState ''in-for-loop-init'' unit0)
        = (Inr (), (pushState ''in-for-loop-init'' unit0)\<lparr>states := rest\<rparr>))"
proof -
  have a: "state (pushState ''in-for-loop-init'' unit0) \<noteq> Some ''other''"
    by (simp add: state_def pushState_def)
  have b: "state (pushState ''in-for-loop-init'' unit0) = Some ''in-for-loop-init''"
    by (simp add: state_def pushState_def)
  from a b popState_checks_label [of "pushState ''in-for-loop-init'' unit0" "''other''"]
    popState_checks_label [of "pushState ''in-for-loop-init'' unit0" "''in-for-loop-init''"]
  show ?thesis by blast
qed

section \<open>Properties of the type oracle\<close>

lemma isAstMathFunction_member: "isAstMathFunction (MemberExpression obj prop computed) = False"
  by (simp add: isAstMathFunction_def)

lemma getType_math_call:
  "isAstMathFunction a \<Longrightarrow> getType a fn = (Inr (Some ''Number''), fn)"
  by (cases a) (auto simp: isAstMathFunction_def)

text \<open>
  Claim C2. The call \<^verbatim>\<open>Math.floor(1.5)\<close> is a recognised Math intrinsic, and the
  oracle answers \<open>Number\<close> for it, as for every recognised intrinsic call: in any
  unit, for the call itself, for the statement \<^verbatim>\<open>return Math.floor(1.5);\<close> and for
  a function declaration with that body. The branch of the member-expression case
  that answers \<open>Integer\<close> for \<^verbatim>\<open>ceil\<close>, \<^verbatim>\<open>floor\<close> and \<^verbatim>\<open>round\<close> tests
  \<^verbatim>\<open>isAstMathFunction\<close> on a member expression, which is never a call.
\<close>

theorem getType_Math_floor_is_Number:
  "isAstMathFunction
     (CallExpression (MemberExpression (Identifier ''Math'') (Identifier ''floor'') False)
        [Literal (LNum (Finite (3 / 2)))]) \<and>
   getType
     (CallExpression (MemberExpression (Identifier ''Math'') (Identifier ''floor'') False)
        [Literal (LNum (Finite (3 / 2)))]) fn = (Inr (Some ''Number''), fn) \<and>
   getType
     (ReturnStatement (Some
        (CallExpression (MemberExpression (Identifier ''Math'') (Identifier ''floor'') False)
           [Literal (LNum (Finite (3 / 2)))]))) fn = (Inr (Some ''Number''), fn) \<and>
   getType
     (FunctionDeclaration (Some (Identifier ''f'')) []
        [ReturnStatement (Some
          (CallExpression (MemberExpression (Identifier ''Math'') (Identifier ''floor'') False)
             [Literal (LNum (Finite (3 / 2)))]))]) fn = (Inr (Some ''Number''), fn)"
  by (simp add: last_opt_def isAstMathFunction_def mathFunctions_def)

section \<open>Properties of the error reporter\<close>

lemma split_lines_not_Nil: "split_lines s \<noteq> []"
  by (induction s) (auto split: list.splits)

lemma length_split_lines: "length (split_lines s) = Suc (count_list s (CHR 0x0A))"
  by (induction s) (auto split: list.splits simp: split_lines_not_Nil)

lemma astErrorOutput_line:
  "diag_line (astErrorOutput (SourceString text) err start dbg)
     = Some (Suc (count_list (drop start text) (CHR 0x0A)))"
  by (simp add: astErrorOutput_def Let_def length_split_lines)

text \<open>
  Claim C5. For the source of three lines below and the node \<^verbatim>\<open>var a;\<close>, which
  starts at offset 17 (line 2, after two blanks), the diagnostic carries the text of
  the node, the line 3 and the position 1: the number of lines from the offset to
  the end of the source, and the length of the last line of the source. The line of
  the offset is 2 and the text between the line feed before it and the offset has
  length 2.
\<close>

theorem astErrorOutput_reads_text_after_start:
  "astErrorOutput (SourceString ''function f() {\<newline>  var a;\<newline>  return a;\<newline>}'')
      ''Unexpected expression'' 17 ''var a;''
     = \<lparr> diag_error = ''Unexpected expression'', diag_line = Some 3,
         diag_position = Some 1, diag_debugString = Some ''var a;'' \<rparr> \<and>
   spec_line ''function f() {\<newline>  var a;\<newline>  return a;\<newline>}'' 17 = 2 \<and>
   spec_column ''function f() {\<newline>  var a;\<newline>  return a;\<newline>}'' 17 = 2"
  by (simp add: astErrorOutput_def spec_line_def spec_column_def)

section \<open>Properties of the dependency and safety analyzer\<close>

text \<open>
  Started in the unsafe context on a node that keeps it, \<^verbatim>\<open>getDependencies\<close> only
  appends to the array, and every record it appends is marked unsafe. The proof
  follows the recursion of the analyzer and of its loop over an array.
\<close>

lemma unsafe_context_aux:
  "(keepsUnsafeContext a \<longrightarrow> isNotSafe \<longrightarrow>
      (\<exists>new. fst (snd (getDependencies a deps isNotSafe fn)) = deps @ new \<and> list_all markedUnsafe new))"
  "(list_all keepsUnsafeContext as \<longrightarrow> isNotSafe \<longrightarrow>
      (\<exists>new. fst (snd (getDependencies_array as deps isNotSafe fn)) = deps @ new \<and> list_all markedUnsafe new))"
proof (induction a deps isNotSafe fn and as deps isNotSafe fn
        rule: getDependencies_getDependencies_array.induct)
  case (1 dependencies isNotSafe fn)
  then show ?case by simp
next
  case (2 a rest dependencies isNotSafe fn)
  show ?case
  proof (intro impI)
    assume k: "list_all keepsUnsafeContext (a # rest)" and f: isNotSafe
    obtain res d1 fn1 where r1: "getDependencies a dependencies isNotSafe fn = (res, d1, fn1)"
      by (cases "getDependencies a dependencies isNotSafe fn") auto
    from "2.IH"(1) k f r1 obtain n1 where n1: "d1 = dependencies @ n1" "list_all markedUnsafe n1"
      by auto
    show "\<exists>new. fst (snd (getDependencies_array (a # rest) dependencies isNotSafe fn)) = dependencies @ new \<and> list_all markedUnsafe new"
    proof (cases res)
      case (Inl e)
      with r1 n1 show ?thesis by simp
    next
      case (Inr v)
      with "2.IH"(2)[OF r1[symmetric] Inr refl] k f r1 n1
      obtain n2 where "fst (snd (getDependencies_array rest d1 isNotSafe fn1)) = d1 @ n2" "list_all markedUnsafe n2"
        by auto
      with Inr r1 n1 show ?thesis by simp
    qed
  qed
next
  case (8 operator l r dependencies isNotSafe fn)
  show ?case
  proof (intro impI)
    assume k: "keepsUnsafeContext (BinaryExpression operator l r)" and f: isNotSafe
    then have op: "operator = ''/'' \<or> operator = ''*''" and kl: "keepsUnsafeContext l" and kr: "keepsUnsafeContext r"
      by auto
    obtain res d1 fn1 where r1: "getDependencies l dependencies (operator = ''/'' \<or> operator = ''*'') fn = (res, d1, fn1)"
      by (cases "getDependencies l dependencies (operator = ''/'' \<or> operator = ''*'') fn") auto
    from "8.IH"(1) kl op r1 obtain n1 where n1: "d1 = dependencies @ n1" "list_all markedUnsafe n1"
      by auto
    show "\<exists>new. fst (snd (getDependencies (BinaryExpression operator l r) dependencies isNotSafe fn)) = dependencies @ new \<and> list_all markedUnsafe new"
    proof (cases res)
      case (Inl e)
      with r1 n1 show ?thesis by simp
    next
      case (Inr v)
      obtain res2 d2 fn2 where r2: "getDependencies r d1 (operator = ''/'' \<or> operator = ''*'') fn1 = (res2, d2, fn2)"
        by (cases "getDependencies r d1 (operator = ''/'' \<or> operator = ''*'') fn1") auto
      from "8.IH"(2)[OF r1[symmetric] Inr refl] Inr kr op r2
      obtain n2 where "d2 = d1 @ n2" "list_all markedUnsafe n2"
        by auto
      with Inr r1 r2 n1 show ?thesis by (cases res2) auto
    qed
  qed
qed (auto simp: markedUnsafe_def split: option.splits prod.splits sum.splits)

text \<open>
  Claim C3, as amended. A binary expression with the operator \<^verbatim>\<open>*\<close> or \<^verbatim>\<open>/\<close>
  analyses both operands in the unsafe context, whatever context it was entered in.
  The context reaches the literals and identifiers of an operand through update
  expressions and through nested binary expressions whose operator is again
  \<^verbatim>\<open>*\<close> or \<^verbatim>\<open>/\<close>: every dependency record collected there for a literal or
  for an identifier (a declared variable or an argument) has \<^verbatim>\<open>isSafe = false\<close>.
  Only the records of calls and array literals, which have neither the origin
  \<^verbatim>\<open>literal\<close> nor a name, stay safe.
\<close>

theorem getDependencies_mul_div_marks_unsafe:
  assumes "operator = ''*'' \<or> operator = ''/''"
    and "keepsUnsafeContext l" and "keepsUnsafeContext r"
  shows "\<exists>new. fst (snd (getDependencies (BinaryExpression operator l r) deps isNotSafe fn))
                  = deps @ new \<and> list_all markedUnsafe new"
proof -
  from assms have k: "keepsUnsafeContext (BinaryExpression operator l r)"
    by auto
  have "getDependencies (BinaryExpression operator l r) deps isNotSafe fn
          = getDependencies (BinaryExpression operator l r) deps True fn"
    by simp
  with unsafe_context_aux(1) [of "BinaryExpression operator l r" True deps fn] k
  show ?thesis by simp
qed

theorem getDependencies_mul_div_marks_unsafe_witness:
  "(''*'' = ''*'' \<or> ''*'' = ''/'') \<and> keepsUnsafeContext (Identifier ''a'') \<and>
   keepsUnsafeContext (BinaryExpression ''/'' (intLiteral 1) (intLiteral 3)) \<and>
   (\<exists>new. fst (snd (getDependencies mulOfQuotient [] False unit0)) = [] @ new
       \<and> list_all markedUnsafe new) \<and>
   map dep_isSafe (fst (snd (getDependencies mulOfQuotient [] False unit0)))
     = [False, False, False]"
proof -
  have a: "''*'' = ''*'' \<or> ''*'' = ''/''" by simp
  have l: "keepsUnsafeContext (Identifier ''a'')" by simp
  have r: "keepsUnsafeContext (BinaryExpression ''/'' (intLiteral 1) (intLiteral 3))"
    by (simp add: intLiteral_def)
  have v: "map dep_isSafe (fst (snd (getDependencies mulOfQuotient [] False unit0)))
     = [False, False, False]"
    by (simp add: mulOfQuotient_def intLiteral_def unit0_def)
  from getDependencies_mul_div_marks_unsafe [OF a l r, of "[]" False unit0] a l r v
  show ?thesis by (simp add: mulOfQuotient_def)
qed

text \<open>
  The claim as it was stated fails: in \<^verbatim>\<open>2 * (1 + 3)\<close> the inner \<^verbatim>\<open>+\<close> sets the
  context anew for its operands, and the literals \<^verbatim>\<open>1\<close> and \<^verbatim>\<open>3\<close>, which lie
  inside the multiplication, are recorded as safe.
\<close>

theorem getDependencies_nested_plus_counterexample:
  "map dep_origin (fst (snd (getDependencies mulOfSum [] False unit0)))
     = [''literal'', ''literal'', ''literal''] \<and>
   map dep_isSafe (fst (snd (getDependencies mulOfSum [] False unit0))) = [False, True, True]"
  by (simp add: mulOfSum_def intLiteral_def literalIsFinite_def)

text \<open>
  The signature of a member expression is never \<^verbatim>\<open>value\<close>: its first fragment is
  \<^verbatim>\<open>[]\<close>, a property fragment or \<^verbatim>\<open>unknown\<close>, and stays in the list. So
  \<^verbatim>\<open>getMemberExpressionDetails\<close> returns a descriptor for a member expression or
  throws; it does not return \<^verbatim>\<open>null\<close>.
\<close>

lemma propertyFragment_cases:
  "propertyFragment prop \<in> {''.value'', ''.constants'', ''.thread'', ''.output'', ''unknown''}"
  unfolding propertyFragment_def
  by (cases "name_of prop") (simp_all add: js_string_def)

lemma signatureParts_keeps: "set sig \<subseteq> set (signatureParts a sig)"
  by (induction a sig rule: signatureParts.induct) (auto simp: signatureParts.simps(1))

lemma signatureParts_member_fragment:
  "\<exists>f \<in> set (signatureParts (MemberExpression ob pr co) []).
      f \<in> {''[]'', ''.value'', ''.constants'', ''.thread'', ''.output'', ''unknown''}"
proof (cases co)
  case True
  have "''[]'' \<in> set (signatureParts ob [''[]''])"
    using signatureParts_keeps [of "[''[]'']" ob] by simp
  with True show ?thesis by (simp only: signatureParts.simps(1) if_True append_Nil) blast
next
  case False
  have "propertyFragment pr \<in> set (signatureParts ob [propertyFragment pr])"
    using signatureParts_keeps [of "[propertyFragment pr]" ob] by simp
  with False propertyFragment_cases [of pr] show ?thesis
    by (simp only: signatureParts.simps(1) if_False) blast
qed

lemma fragment_chars: "f \<in> set xs \<Longrightarrow> c \<in> set f \<Longrightarrow> c \<in> set (concat xs)"
  by auto

lemma member_signature_not_value:
  "getVariableSignature (MemberExpression ob pr co) \<noteq> Inr (Some ''value'')"
proof -
  define xs where "xs = signatureParts (MemberExpression ob pr co) []"
  from signatureParts_member_fragment [of ob pr co]
  obtain f where f: "f \<in> set xs"
    and k: "f \<in> {''[]'', ''.value'', ''.constants'', ''.thread'', ''.output'', ''unknown''}"
    unfolding xs_def by (rule bexE)
  from k have "CHR ''['' \<in> set f \<or> CHR ''.'' \<in> set f \<or> CHR ''n'' \<in> set f"
    by (elim insertE emptyE) simp_all
  with f have "CHR ''['' \<in> set (concat xs) \<or> CHR ''.'' \<in> set (concat xs)
      \<or> CHR ''n'' \<in> set (concat xs)"
    using fragment_chars [of f xs] by blast
  moreover have "CHR ''['' \<notin> set ''value'' \<and> CHR ''.'' \<notin> set ''value'' \<and> CHR ''n'' \<notin> set ''value''"
    by simp
  ultimately have "concat xs \<noteq> ''value''"
    by metis
  then show ?thesis
    unfolding xs_def by (simp add: getVariableSignature_def isAstVariable_def Let_def)
qed

lemma userDetails_not_None: "userDetails a sig nm d fn \<noteq> (Inr None, fn')"
  by (auto simp: userDetails_def unexpected_def split: sum.splits option.splits prod.splits)

lemma constantDetails_not_None: "constantDetails a sig nm d fn \<noteq> (Inr None, fn')"
  by (auto simp: constantDetails_def unexpected_def split: sum.splits option.splits)

lemma member_details_never_null:
  "getMemberExpressionDetails (MemberExpression ob pr co) fn \<noteq> (Inr None, fn')"
proof -
  have "\<exists>sig. getVariableSignature (MemberExpression ob pr co) = Inr sig"
    by (simp add: getVariableSignature_def isAstVariable_def Let_def)
  then obtain sig where s: "getVariableSignature (MemberExpression ob pr co) = Inr sig" ..
  with member_signature_not_value [of ob pr co] have "sig \<noteq> Some ''value''" by simp
  with s show ?thesis
    by (simp add: getMemberExpressionDetails_def Let_def unexpected_def
          userDetails_not_None constantDetails_not_None
        split: sum.splits option.splits)
qed

text \<open>
  Claim C10. For a member expression on which the decomposer returns, the analyzer
  leaves the array of dependencies as it is; with a descriptor it returns the
  descriptor's \<^verbatim>\<open>type\<close> field in place of the array, and with no descriptor it
  throws the diagnostic \<^verbatim>\<open>Unhandled type MemberExpression in getAllVariables\<close>.
\<close>

theorem getDependencies_member_expression:
  "getMemberExpressionDetails (MemberExpression ob pr co) fn = (Inr details, fn') \<Longrightarrow>
   getDependencies (MemberExpression ob pr co) deps isNotSafe fn =
     (case details of
        Some d \<Rightarrow> (Inr (RetType (d_type d)), deps, fn')
      | None \<Rightarrow>
          (Inl (AstError ''Unhandled type MemberExpression in getAllVariables''
                  (MemberExpression ob pr co)), deps, fn'))"
  by (simp split: option.splits)


lemma indexed_argument_details:
  "getMemberExpressionDetails (MemberExpression (Identifier ''a'') (intLiteral 0) True) unitA
   = (Inr (Some \<lparr> d_name = Some ''a'', d_origin = Some ''user'', d_signature = ''value[]'',
          d_type = Some ''Array'', xProperty = Some (intLiteral 0), yProperty = None,
          zProperty = None, d_property = None \<rparr>), unitA)"
  by (simp add: getMemberExpressionDetails_def getVariableSignature_def isAstVariable_def
        allowedExpressions_def truthy_def js_string_def userDetails_def dot_def emptyDescriptor_def
        getVariableType_def unit0_def unitA_def Let_def signatureParts.simps(1))

theorem getDependencies_member_expression_witness:
  "getMemberExpressionDetails (MemberExpression (Identifier ''a'') (intLiteral 0) True) unitA
   = (Inr (Some \<lparr> d_name = Some ''a'', d_origin = Some ''user'', d_signature = ''value[]'',
          d_type = Some ''Array'', xProperty = Some (intLiteral 0), yProperty = None,
          zProperty = None, d_property = None \<rparr>), unitA) \<and>
   getDependencies (MemberExpression (Identifier ''a'') (intLiteral 0) True)
      [\<lparr> dep_origin = ''function'', dep_name = None, dep_value = None, dep_isSafe = True \<rparr>]
      False unitA
   = (Inr (RetType (Some ''Array'')),
      [\<lparr> dep_origin = ''function'', dep_name = None, dep_value = None, dep_isSafe = True \<rparr>],
      unitA)"
  using getDependencies_member_expression [OF indexed_argument_details,
          of "[\<lparr> dep_origin = ''function'', dep_name = None, dep_value = None, dep_isSafe = True \<rparr>]"
             False]
    indexed_argument_details
  by simp

section \<open>Properties of the generic walker\<close>

text \<open>
  Claim C7. For the sequence \<^verbatim>\<open>i++, j--\<close> the walker emits \<^verbatim>\<open>++\<close>, \<^verbatim>\<open>--\<close>, a
  comma, and \<^verbatim>\<open>++\<close>, \<^verbatim>\<open>--\<close> again: each of the two iterations of the loop walks
  the whole array \<^verbatim>\<open>sNode.expressions\<close>. Walked alone, the first sub-expression
  emits \<^verbatim>\<open>++\<close> and the second \<^verbatim>\<open>--\<close>.
\<close>

theorem astSequenceExpression_walks_whole_array:
  "astGeneric typeMap
     (SequenceExpression [UpdateExpression ''++'' False (Identifier ''i''),
                          UpdateExpression ''--'' False (Identifier ''j'')]) [] fn
     = (None, [Str ''++'', Str ''--'', Str '','', Str ''++'', Str ''--''], fn) \<and>
   astGeneric typeMap (UpdateExpression ''++'' False (Identifier ''i'')) [] fn
     = (None, [Str ''++''], fn) \<and>
   astGeneric typeMap (UpdateExpression ''--'' False (Identifier ''j'')) [] fn
     = (None, [Str ''--''], fn)"
  by (simp add: numeral_2_eq_2)

text \<open>
  Claim C9. A variable declaration with no declarator, or whose first declarator
  has no initialiser, makes the handler throw the diagnostic
  \<^verbatim>\<open>Unexpected expression\<close> for the declaration node; the output buffer and the
  unit, and so the declaration table, are as they were.
\<close>

theorem astVariableDeclaration_without_init:
  "decls = [] \<or> (\<exists>d rest. decls = d # rest \<and> init_of d = None) \<Longrightarrow>
   astGeneric typeMap (VariableDeclaration decls) retArr fn
     = (Some (AstError ''Unexpected expression'' (VariableDeclaration decls)), retArr, fn)"
  by auto

theorem astVariableDeclaration_without_init_witness:
  "init_of (VariableDeclarator (Identifier ''x'') None) = None \<and>
   astGeneric typeMap0 (VariableDeclaration [VariableDeclarator (Identifier ''x'') None])
      [Str ''before''] unit0
     = (Some (AstError ''Unexpected expression''
               (VariableDeclaration [VariableDeclarator (Identifier ''x'') None])),
        [Str ''before''], unit0)"
proof -
  have h: "[VariableDeclarator (Identifier ''x'') None] = [] \<or>
      (\<exists>d rest. [VariableDeclarator (Identifier ''x'') None] = d # rest \<and> init_of d = None)"
    by simp
  from astVariableDeclaration_without_init [OF h, of typeMap0 "[Str ''before'']" unit0]
  show ?thesis by simp
qed

text \<open>
  Claim C4. For \<^verbatim>\<open>var a = 1;\<close> and a type map that lowers \<open>Number\<close> to
  \<^verbatim>\<open>float\<close>, the handler pushes the buffer itself, then the text
  \<^verbatim>\<open>Number user_a=\<close>, then \<^verbatim>\<open>;\<close>: the text starts with the inferred type, not with
  its \<^verbatim>\<open>typeMap\<close> entry. (The literal \<^verbatim>\<open>1\<close> emits nothing: \<^verbatim>\<open>astLiteral\<close> is
  an empty hook.)
\<close>

theorem astVariableDeclaration_emits_inferred_type:
  "typeMap0 ''Number'' = Some ''float'' \<and>
   astGeneric typeMap0
     (VariableDeclaration [VariableDeclarator (Identifier ''a'') (Some (intLiteral 1))]) [] unit0
   = (None, [SelfRef, Str ''Number user_a='', Str '';''],
      setDeclaration (Some ''a'')
        \<lparr> decl_type = Some ''Number'',
          decl_dependencies = DepList [\<lparr> dep_origin = ''literal'', dep_name = None,
            dep_value = Some (LNum (Finite 1)), dep_isSafe = True \<rparr>],
          decl_isSafe = True \<rparr> unit0)"
  by (simp add: intLiteral_def firstDeclarationRecord_def isState_def state_def unit0_def
        isIntegerLiteral_def is_integer_def typeMap0_def truthy_def getDependencies_top_def
        literalIsFinite_def js_string_def frag_text_def)

text \<open>
  The type oracle, the decomposer and the analyzer leave the declaration table as
  it is (they only store argument types).
\<close>

lemma getVariableType_declarations:
  "declarations (snd (getVariableType nm fn)) = declarations fn"
  by (simp add: getVariableType_def Let_def split: option.splits sum.splits)

lemma getVariableType_declarations':
  "getVariableType nm fn = (r, fn') \<Longrightarrow> declarations fn' = declarations fn"
  using getVariableType_declarations [of nm fn] by simp

lemma typeOfVariable_declarations:
  "declarations (snd (typeOfVariable nm fn)) = declarations fn"
  by (auto simp: typeOfVariable_def split: sum.splits prod.splits
           dest: getVariableType_declarations')

lemma typeOfConstant_declarations:
  "declarations (snd (typeOfConstant nm fn)) = declarations fn"
  by (simp add: typeOfConstant_def split: sum.splits)

lemma getTypeMember_declarations:
  "declarations (snd (getTypeMember obj prop computed sig fn)) = declarations fn"
  by (simp add: getTypeMember_def typeOfVariable_declarations typeOfConstant_declarations)

lemma getType_declarations:
  "declarations (snd (getType a fn)) = declarations fn"
proof (induction a fn rule: getType.induct)
  case (5 operator l r fn)
  then show ?case by (auto split: prod.splits sum.splits)
next
  case (10 n fn)
  then show ?case by (simp add: getVariableType_declarations split: option.splits)
next
  case (12 ob pr co fn)
  then show ?case
    by (auto simp: getTypeMember_declarations split: prod.splits sum.splits)
qed (auto split: option.splits list.splits)

lemma userDetails_declarations:
  "declarations (snd (userDetails a sig nm d fn)) = declarations fn"
  by (auto simp: userDetails_def unexpected_def split: sum.splits option.splits prod.splits
           dest: getVariableType_declarations')

lemma constantDetails_declarations:
  "declarations (snd (constantDetails a sig nm d fn)) = declarations fn"
  by (simp add: constantDetails_def unexpected_def split: sum.splits option.splits)

lemma getMemberExpressionDetails_declarations:
  "declarations (snd (getMemberExpressionDetails a fn)) = declarations fn"
  by (simp add: getMemberExpressionDetails_def Let_def unexpected_def
        userDetails_declarations constantDetails_declarations
      split: sum.splits option.splits)

lemma getDependencies_declarations:
  "declarations (snd (snd (getDependencies a deps isNotSafe fn))) = declarations fn"
  "declarations (snd (snd (getDependencies_array as deps isNotSafe fn))) = declarations fn"
proof (induction a deps isNotSafe fn and as deps isNotSafe fn
        rule: getDependencies_getDependencies_array.induct)
  case (2 a rest dependencies isNotSafe fn)
  then show ?case by (auto split: prod.splits sum.splits)
next
  case (8 operator l r dependencies isNotSafe fn)
  then show ?case by (auto split: prod.splits sum.splits)
next
  case (13 ob pr co dependencies isNotSafe fn)
  show ?case
    using getMemberExpressionDetails_declarations[of "MemberExpression ob pr co" fn]
    by (auto split: prod.splits sum.splits option.splits)
qed (auto split: option.splits)

lemma getDependencies_top_declarations:
  "declarations (snd (getDependencies_top a fn)) = declarations fn"
proof (cases a)
  case None
  then show ?thesis by (simp add: getDependencies_top_def)
next
  case (Some node)
  obtain r d fn' where g: "getDependencies node [] False fn = (r, d, fn')"
    by (cases "getDependencies node [] False fn") auto
  with getDependencies_declarations(1) [of node "[]" False fn]
  have "declarations fn' = declarations fn" by simp
  with Some g show ?thesis
    by (simp add: getDependencies_top_def split: sum.splits depret.splits)
qed

lemma getDependencies_top_declarations':
  "getDependencies_top a fn = (r, fn') \<Longrightarrow> declarations fn' = declarations fn"
  using getDependencies_top_declarations [of a fn] by simp

lemma astFunctionDeclaration_declarations:
  "declarations (snd (snd (astFunctionDeclaration a r fn))) = declarations fn"
  using getType_declarations [of a fn]
  by (auto simp: astFunctionDeclaration_def split: prod.splits sum.splits)

lemma astGeneric_declarations:
  "walksNoDeclaration a \<longrightarrow> declarations (snd (snd (astGeneric tm a r fn))) = declarations fn"
  "list_all walksNoDeclaration as \<longrightarrow>
     declarations (snd (snd (astGeneric_array tm as r fn))) = declarations fn"
  "list_all walksNoDeclaration rest \<longrightarrow>
     (\<forall>n. n \<notin> declaratorName ` set rest \<longrightarrow>
        declarations (snd (snd (astVariableDeclaration_rest tm ty rest res fn))) n
          = declarations fn n)"
  "list_all walksNoDeclaration es \<longrightarrow>
     declarations (snd (snd (astSequenceExpression_loop tm es k r fn))) = declarations fn"
proof (induction tm a r fn and tm as r fn and tm ty rest res fn and tm es k r fn
        rule: astGeneric_astGeneric_array_astVariableDeclaration_rest_astSequenceExpression_loop.induct)
  case (4 tm ty dcl rest result fn)
  show ?case
  proof (intro impI allI)
    fix n
    assume w: "list_all walksNoDeclaration (dcl # rest)"
      and n: "n \<notin> declaratorName ` set (dcl # rest)"
    obtain r fn1 where g: "getDependencies_top (Some dcl) fn = (r, fn1)"
      by force
    have d1: "declarations fn1 = declarations fn"
      using g by (rule getDependencies_top_declarations')
    show "declarations (snd (snd (astVariableDeclaration_rest tm ty (dcl # rest) result fn))) n
            = declarations fn n"
    proof (cases r)
      case (Inl e)
      with g d1 show ?thesis by simp
    next
      case (Inr deps)
      show ?thesis
      proof (cases "id_of dcl")
        case None
        with g Inr d1 show ?thesis by simp
      next
        case (Some ident)
        define fn2 where "fn2 = setDeclaration (name_of ident)
            \<lparr> decl_type = ty, decl_dependencies = deps, decl_isSafe = False \<rparr> fn1"
        obtain e r2 fn3 where a: "astGeneric tm dcl result fn2 = (e, r2, fn3)"
          by (cases "astGeneric tm dcl result fn2") auto
        from "4.IH"(1) [OF g [symmetric] Inr Some] w a
        have d3: "declarations fn3 = declarations fn2"
          by (simp add: fn2_def)
        have nn: "n \<noteq> js_string (name_of ident)"
          using n Some by (simp add: declaratorName_def)
        have d2: "declarations fn2 n = declarations fn n"
          using nn d1 by (simp add: fn2_def setDeclaration_def)
        show ?thesis
        proof (cases e)
          case (Some err)
          with g Inr \<open>id_of dcl = Some ident\<close> a d3 d2 show ?thesis
            by (simp add: fn2_def)
        next
          case None
          from "4.IH"(2) [OF g [symmetric] Inr \<open>id_of dcl = Some ident\<close>
                 a [symmetric, unfolded fn2_def None] refl refl] w n
          have "declarations (snd (snd (astVariableDeclaration_rest tm ty rest r2 fn3))) n
                  = declarations fn3 n"
            by simp
          with g Inr \<open>id_of dcl = Some ident\<close> a None d3 d2 show ?thesis
            by (simp add: fn2_def)
        qed
      qed
    qed
  qed
qed (auto simp: astFunctionDeclaration_declarations declaratorName_def setDeclaration_def
         split: prod.splits option.splits sum.splits
         dest: getDependencies_top_declarations')

lemma astGeneric_keeps_declarations:
  "walksNoDeclaration a \<Longrightarrow> astGeneric tm a r fn = (e, r', fn') \<Longrightarrow>
   declarations fn' = declarations fn"
  using astGeneric_declarations(1) [where a = a and tm = tm and r = r and fn = fn] by simp

lemma rest_keeps_other_names:
  "list_all walksNoDeclaration rest \<Longrightarrow>
   astVariableDeclaration_rest tm ty rest res fn = (e, res', fn') \<Longrightarrow>
   n \<notin> declaratorName ` set rest \<Longrightarrow> declarations fn' n = declarations fn n"
  using astGeneric_declarations(3)
          [where rest = rest and tm = tm and ty = ty and res = res and fn = fn]
  by simp

lemma rest_records:
  "list_all walksNoDeclaration rest \<Longrightarrow>
   astVariableDeclaration_rest tm ty rest res fn = (None, res', fn') \<Longrightarrow>
   x \<in> set rest \<Longrightarrow>
   \<exists>rec. declarations fn' (declaratorName x) = Some rec \<and> \<not> decl_isSafe rec"
proof (induction rest arbitrary: res fn x)
  case Nil
  then show ?case by simp
next
  case (Cons d rest)
  from Cons.prems(2) obtain deps fn1 ident r2 fn3 where
    g: "getDependencies_top (Some d) fn = (Inr deps, fn1)" and
    i: "id_of d = Some ident" and
    a: "astGeneric tm d res (setDeclaration (name_of ident)
          \<lparr> decl_type = ty, decl_dependencies = deps, decl_isSafe = False \<rparr> fn1) = (None, r2, fn3)" and
    l: "astVariableDeclaration_rest tm ty rest r2 fn3 = (None, res', fn')"
    by (auto split: prod.splits sum.splits option.splits)
  from Cons.prems(1) have wd: "walksNoDeclaration d" and wr: "list_all walksNoDeclaration rest"
    by simp_all
  from astGeneric_keeps_declarations [OF wd a]
  have d3: "declarations fn3 (declaratorName d)
              = Some \<lparr> decl_type = ty, decl_dependencies = deps, decl_isSafe = False \<rparr>"
    by (simp add: setDeclaration_def declaratorName_def i)
  show ?case
  proof (cases "x \<in> set rest")
    case True
    with Cons.IH [OF wr l] show ?thesis by simp
  next
    case False
    with Cons.prems(3) have xd: "x = d" by simp
    show ?thesis
    proof (cases "declaratorName d \<in> declaratorName ` set rest")
      case True
      then obtain y where y: "y \<in> set rest" "declaratorName y = declaratorName d" by auto
      with Cons.IH [OF wr l y(1)] xd show ?thesis by simp
    next
      case False
      with rest_keeps_other_names [OF wr l] d3 xd
      show ?thesis by simp
    qed
  qed
qed

text \<open>
  Claim C1, as amended. When the handler returns from a variable declaration whose
  initialisers hold no further variable declaration, the table has, for every
  declarator after the first, a record with \<^verbatim>\<open>isSafe = false\<close>; and, when no later
  declarator has the name of the first, it has for the first a record whose
  dependencies are an array and whose \<^verbatim>\<open>isSafe\<close> is the conjunction of their
  \<^verbatim>\<open>isSafe\<close> flags.
\<close>

theorem astVariableDeclaration_isSafe:
  assumes run: "astGeneric tm (VariableDeclaration (VariableDeclarator ident (Some init) # rest))
                  retArr fn = (None, retArr', fn')"
    and wi: "walksNoDeclaration init"
    and wr: "list_all walksNoDeclaration rest"
  shows "(\<forall>x \<in> set rest. \<exists>rec. declarations fn' (declaratorName x) = Some rec \<and> \<not> decl_isSafe rec) \<and>
         (js_string (name_of ident) \<notin> declaratorName ` set rest \<longrightarrow>
            (\<exists>rec ds. declarations fn' (js_string (name_of ident)) = Some rec \<and>
               decl_dependencies rec = DepList ds \<and>
               decl_isSafe rec = list_all dep_isSafe ds))"
proof -
  let ?node = "VariableDeclaration (VariableDeclarator ident (Some init) # rest)"
  from run obtain ty nm fn1 initResult fn2 result where
    f: "firstDeclarationRecord tm ?node (VariableDeclarator ident (Some init)) init fn
          = (Inr (ty, nm), fn1)" and
    a: "astGeneric tm init [Str (ty @ '' user_'' @ nm @ ''='')] fn1 = (None, initResult, fn2)" and
    l: "astVariableDeclaration_rest tm (Some ty) rest [Str (js_join [] initResult)] fn2
          = (None, result, fn')"
    by (auto split: prod.splits sum.splits option.splits)
  from f obtain ds where
    r1: "declarations fn1 (js_string (name_of ident))
           = Some \<lparr> decl_type = Some ty, decl_dependencies = DepList ds,
                    decl_isSafe = list_all dep_isSafe ds \<rparr>"
    by (auto simp: firstDeclarationRecord_def setDeclaration_def
             split: prod.splits sum.splits option.splits if_splits depsval.splits)
  from astGeneric_keeps_declarations [OF wi a]
  have d2: "declarations fn2 = declarations fn1" .
  have later: "\<forall>x \<in> set rest. \<exists>rec. declarations fn' (declaratorName x) = Some rec \<and> \<not> decl_isSafe rec"
    using rest_records [OF wr l] by blast
  have first: "js_string (name_of ident) \<notin> declaratorName ` set rest \<longrightarrow>
            (\<exists>rec ds. declarations fn' (js_string (name_of ident)) = Some rec \<and>
               decl_dependencies rec = DepList ds \<and>
               decl_isSafe rec = list_all dep_isSafe ds)"
    using rest_keeps_other_names [OF wr l] r1 d2 by simp
  from later first show ?thesis by blast
qed

lemma twoDeclarators_run:
  "astGeneric typeMap0 twoDeclarators [] unit0 =
     (None, [SelfRef, Str ''Number user_a=,='', Str '';''],
      setDeclaration (Some ''b'')
        \<lparr> decl_type = Some ''Number'',
          decl_dependencies = DepList [\<lparr> dep_origin = ''literal'', dep_name = None,
            dep_value = Some (LNum (Finite 2)), dep_isSafe = True \<rparr>],
          decl_isSafe = False \<rparr>
        (setDeclaration (Some ''a'')
          \<lparr> decl_type = Some ''Number'',
            decl_dependencies = DepList [\<lparr> dep_origin = ''literal'', dep_name = None,
              dep_value = Some (LNum (Finite 1)), dep_isSafe = True \<rparr>],
            decl_isSafe = True \<rparr> unit0))"
  by (simp add: twoDeclarators_def intLiteral_def firstDeclarationRecord_def isState_def state_def
        unit0_def isIntegerLiteral_def is_integer_def typeMap0_def truthy_def
        getDependencies_top_def literalIsFinite_def js_string_def frag_text_def)


theorem astVariableDeclaration_isSafe_witness:
  "fst (astGeneric typeMap0 twoDeclarators [] unit0) = None \<and>
   walksNoDeclaration (intLiteral 1) \<and>
   list_all walksNoDeclaration [VariableDeclarator (Identifier ''b'') (Some (intLiteral 2))] \<and>
   (\<exists>rec. declarations (snd (snd (astGeneric typeMap0 twoDeclarators [] unit0))) ''b'' = Some rec
       \<and> \<not> decl_isSafe rec) \<and>
   (\<exists>rec ds. declarations (snd (snd (astGeneric typeMap0 twoDeclarators [] unit0))) ''a'' = Some rec
       \<and> decl_dependencies rec = DepList ds \<and> decl_isSafe rec = list_all dep_isSafe ds)"
proof -
  let ?rest = "[VariableDeclarator (Identifier ''b'') (Some (intLiteral 2))]"
  obtain r f where run: "astGeneric typeMap0
      (VariableDeclaration (VariableDeclarator (Identifier ''a'') (Some (intLiteral 1)) # ?rest))
      [] unit0 = (None, r, f)"
    using twoDeclarators_run by (simp add: twoDeclarators_def)
  have wi: "walksNoDeclaration (intLiteral 1)" by (simp add: intLiteral_def)
  have wr: "list_all walksNoDeclaration ?rest" by (simp add: intLiteral_def)
  have nm: "js_string (name_of (Identifier ''a'')) \<notin> declaratorName ` set ?rest"
    by (simp add: declaratorName_def js_string_def)
  have b: "VariableDeclarator (Identifier ''b'') (Some (intLiteral 2)) \<in> set ?rest" by simp
  from astVariableDeclaration_isSafe [OF run wi wr] nm b run wi wr
  show ?thesis
    by (simp add: twoDeclarators_def declaratorName_def js_string_def)
qed

text \<open>
  The claim as it was stated fails: for \<^verbatim>\<open>var a = 1, b = 2;\<close> the record of
  \<^verbatim>\<open>b\<close> has one dependency, the literal \<^verbatim>\<open>2\<close>, which is safe, and
  \<^verbatim>\<open>isSafe = false\<close>, the constant the handler stores for every declarator after
  the first.
\<close>

theorem later_declarator_isSafe_counterexample:
  "declarations (snd (snd (astGeneric typeMap0 twoDeclarators [] unit0))) ''b''
     = Some \<lparr> decl_type = Some ''Number'',
          decl_dependencies = DepList [\<lparr> dep_origin = ''literal'', dep_name = None,
            dep_value = Some (LNum (Finite 2)), dep_isSafe = True \<rparr>],
          decl_isSafe = False \<rparr>"
  by (simp add: twoDeclarators_run setDeclaration_def js_string_def)

section \<open>Properties of construction and serialisation\<close>

text \<open>
  \<^verbatim>\<open>validate\<close> reads five fields; a unit it accepts has a textual source that
  \<^verbatim>\<open>isFunctionString\<close> accepts and a name. A unit that \<^verbatim>\<open>validate\<close> accepts and
  that has a return type is rebuilt from its own \<^verbatim>\<open>toJSON().settings\<close> with the
  same serialised fields, when the empty text is no function string.
\<close>

lemma validate_passes:
  "validate u fn = None \<Longrightarrow>
   \<exists>text. source fn = SourceString text \<and> isFunctionString u text \<and> truthy (name fn)"
  by (auto simp: validate_def split: jssource.splits if_splits)

lemma validate_reads:
  "source a = source b \<Longrightarrow> name a = name b \<Longrightarrow> argumentTypes a = argumentTypes b \<Longrightarrow>
   argumentNames a = argumentNames b \<Longrightarrow> output a = output b \<Longrightarrow>
   validate u a = validate u b"
  by (simp only: validate_def)

lemma newFunctionNode_valid:
  assumes "newFunctionNode u src st = Inr U"
  shows "validate u U = None" and "truthy (returnType U)"
proof -
  define X where "X = copySettings (case st of None \<Rightarrow> noSettings | Some s \<Rightarrow> s)
      (initialFields u src (case st of None \<Rightarrow> noSettings | Some s \<Rightarrow> s))"
  from assms have U: "U = defaultReturnType X" and v: "validate u U = None"
    by (auto simp: newFunctionNode_def Let_def X_def split: if_splits option.splits)
  show "validate u U = None" by (rule v)
  show "truthy (returnType U)"
    by (simp add: U defaultReturnType_def truthy_def)
qed

lemma rebuild_valid_unit:
  assumes v: "validate u U = None" and rt: "truthy (returnType U)"
    and e: "\<not> isFunctionString u []"
  shows "\<exists>U'. newFunctionNode u (source U) (Some (toJSON U)) = Inr U' \<and>
           source U' = source U \<and> name U' = name U \<and> constants U' = constants U \<and>
           constantTypes U' = constantTypes U \<and> isRootKernel U' = isRootKernel U \<and>
           isSubKernel U' = isSubKernel U \<and> debug U' = debug U \<and> output U' = output U \<and>
           loopMaxIterations U' = loopMaxIterations U \<and> argumentNames U' = argumentNames U \<and>
           argumentTypes U' = argumentTypes U \<and> argumentSizes U' = argumentSizes U \<and>
           returnType U' = returnType U"
proof -
  from validate_passes [OF v] obtain body where
    s: "source U = SourceString body" and f: "isFunctionString u body" by blast
  from f e have ne: "body \<noteq> []" by auto
  define built where "built = (\<lparr> source = source U, name = name U,
      calledFunctions = [], calledFunctionsArguments = [], constants = constants U,
      constantTypes = constantTypes U, isRootKernel = isRootKernel U,
      isSubKernel = isSubKernel U, parent = None, debug = debug U,
      declarations = Map.empty, states = [], lookupReturnType = None,
      onNestedFunction = False, nestedCalls = [], loopMaxIterations = loopMaxIterations U,
      argumentNames = argumentNames U, argumentTypes = argumentTypes U,
      argumentSizes = argumentSizes U, returnType = returnType U, output = output U,
      plugins = JNull \<rparr> :: function_node)"
  have "validate u built = validate u U"
    by (rule validate_reads) (simp_all add: built_def)
  with v have vt: "validate u built = None" by simp
  have "newFunctionNode u (source U) (Some (toJSON U)) = Inr built"
    using s ne rt vt
    by (simp add: newFunctionNode_def toJSON_def noSettings_def override_def Let_def built_def
          initialFields_def copySettings_def defaultReturnType_def)
  then show ?thesis by (simp add: built_def)
qed

text \<open>
  Claim C6. Let \<open>U\<close> be a unit the constructor returned. The constructor, given
  the \<^verbatim>\<open>source\<close> and the settings of \<^verbatim>\<open>U.toJSON().settings\<close>, returns a unit
  again, with the same name, constants, constant types, root-kernel, sub-kernel and
  debug flags, output, loop limit, argument names, types and sizes, and return type.
  The helper \<^verbatim>\<open>utils.isFunctionString\<close> is taken to reject the empty text.
\<close>

theorem toJSON_round_trip:
  assumes "newFunctionNode u src st = Inr U" and "\<not> isFunctionString u []"
  shows "\<exists>U'. newFunctionNode u (source U) (Some (toJSON U)) = Inr U' \<and>
           name U' = name U \<and> constants U' = constants U \<and>
           constantTypes U' = constantTypes U \<and> isRootKernel U' = isRootKernel U \<and>
           isSubKernel U' = isSubKernel U \<and> debug U' = debug U \<and> output U' = output U \<and>
           loopMaxIterations U' = loopMaxIterations U \<and> argumentNames U' = argumentNames U \<and>
           argumentTypes U' = argumentTypes U \<and> argumentSizes U' = argumentSizes U \<and>
           returnType U' = returnType U"
  using rebuild_valid_unit [OF newFunctionNode_valid [OF assms(1)] assms(2)] by blast


lemma unit0_constructed:
  "newFunctionNode utils0 (SourceString ''function f(a) {}'')
     (Some (noSettings\<lparr>set_output := Some [1]\<rparr>)) = Inr unit0"
  by (simp add: newFunctionNode_def noSettings_def override_def Let_def utils0_def unit0_def
        validate_def truthy_def initialFields_def copySettings_def defaultReturnType_def)

theorem toJSON_round_trip_witness:
  "newFunctionNode utils0 (SourceString ''function f(a) {}'')
     (Some (noSettings\<lparr>set_output := Some [1]\<rparr>)) = Inr unit0 \<and>
   \<not> isFunctionString utils0 [] \<and>
   (\<exists>U'. newFunctionNode utils0 (source unit0) (Some (toJSON unit0)) = Inr U' \<and>
           name U' = name unit0 \<and> constants U' = constants unit0 \<and>
           constantTypes U' = constantTypes unit0 \<and> isRootKernel U' = isRootKernel unit0 \<and>
           isSubKernel U' = isSubKernel unit0 \<and> debug U' = debug unit0 \<and>
           output U' = output unit0 \<and>
           loopMaxIterations U' = loopMaxIterations unit0 \<and>
           argumentNames U' = argumentNames unit0 \<and>
           argumentTypes U' = argumentTypes unit0 \<and> argumentSizes U' = argumentSizes unit0 \<and>
           returnType U' = returnType unit0)"
proof -
  have e: "\<not> isFunctionString utils0 []" by (simp add: utils0_def)
  from toJSON_round_trip [OF unit0_constructed e] unit0_constructed e
  show ?thesis by blast
qed

end
